theory Spec2Isabelle
  imports Complex_Main
begin

section \<open>Budget variance analysis: the model of \<open>budget_variance_analyzer.py\<close>\<close>

text \<open>
  The source is one class, \<open>BudgetVarianceAnalyzer\<close>. Its constructor stores two
  dictionaries; \<open>calculate_variances\<close> takes a pandas DataFrame, assigns five
  columns to it and returns it. (\<open>generate_sample_data\<close> draws random numbers and is not
  modelled.)

  Numbers. The columns the arithmetic works on are float64 columns. A float64 value is
  NaN, an infinity, a zero of either sign, or a finite nonzero number, held here as the
  real number it denotes. Every operation computes the exact result and rounds it to the
  nearest float64, a tie going to the even significand, with overflow to an infinity and
  gradual underflow (IEEE 754 binary64, round to nearest).
\<close>

subsection \<open>Floating-point values\<close>

datatype fl = Fin real | NegZero | PInf | NInf | NaN

text \<open>\<open>Fin 0\<close> is the zero of positive sign, \<open>NegZero\<close> the zero of negative sign.\<close>

fun fl_val :: "fl \<Rightarrow> real" where
  "fl_val (Fin x) = x"
| "fl_val x = 0"

fun fl_sign :: "fl \<Rightarrow> bool" where
  "fl_sign (Fin x) = (x < 0)"
| "fl_sign NegZero = True"
| "fl_sign NInf = True"
| "fl_sign x = False"

fun is_finite :: "fl \<Rightarrow> bool" where
  "is_finite (Fin x) = True"
| "is_finite NegZero = True"
| "is_finite x = False"

definition is_inf :: "fl \<Rightarrow> bool" where
  "is_inf x = (x = PInf \<or> x = NInf)"

definition is_zero :: "fl \<Rightarrow> bool" where
  "is_zero x = (x = Fin 0 \<or> x = NegZero)"

definition fl_zero :: "bool \<Rightarrow> fl" where
  "fl_zero s = (if s then NegZero else Fin 0)"

definition fl_inf :: "bool \<Rightarrow> fl" where
  "fl_inf s = (if s then NInf else PInf)"

text \<open>The number of binary digits of a natural number.\<close>

fun bit_length :: "nat \<Rightarrow> nat" where
  "bit_length n = (if n = 0 then 0 else Suc (bit_length (n div 2)))"

declare bit_length.simps [simp del]

text \<open>
  The binary exponent of a positive real \<open>m\<close>: the \<open>e\<close> with
  \<open>2 ^ e \<le> m < 2 ^ (e + 1)\<close>.
\<close>

definition expo :: "real \<Rightarrow> int" where
  "expo m =
     (if 1 \<le> m then int (bit_length (nat \<lfloor>m\<rfloor>)) - 1
      else - int (bit_length (nat (\<lceil>1 / m\<rceil> - 1))))"

definition pow2 :: "int \<Rightarrow> real" where
  "pow2 e = (if 0 \<le> e then 2 ^ nat e else 1 / 2 ^ nat (- e))"

text \<open>
  \<open>rint\<close>: the nearest integer, a tie going to the even neighbour (the rounding mode of
  \<open>numpy.rint\<close>, and of the significand below).
\<close>

definition rint :: "real \<Rightarrow> real" where
  "rint x =
     (let f = \<lfloor>x\<rfloor>; d = x - of_int f in
      if d < 1 / 2 then of_int f
      else if 1 / 2 < d then of_int (f + 1)
      else if even f then of_int f else of_int (f + 1))"

text \<open>
  Rounding a magnitude \<open>m \<ge> 0\<close> of sign \<open>s\<close> to float64. The significand has 53
  bits: the spacing of the floats around \<open>m\<close> is \<open>2 ^ (e - 52)\<close> for the exponent
  \<open>e\<close> of \<open>m\<close>, and \<open>2 ^ -1074\<close> below \<open>2 ^ -1022\<close> (subnormal numbers). A result
  of \<open>2 ^ 1024\<close> or more is an infinity, a result of 0 a zero; both keep the sign.
\<close>

definition round_mag :: "bool \<Rightarrow> real \<Rightarrow> fl" where
  "round_mag s m =
     (if m = 0 then fl_zero s
      else
        let e = max (expo m) (- 1022);
            u = pow2 (e - 52);
            r = rint (m / u) * u
        in if pow2 1024 \<le> r then fl_inf s
           else if r = 0 then fl_zero s
           else Fin (if s then - r else r))"

definition round64 :: "real \<Rightarrow> fl" where
  "round64 x = round_mag (x < 0) \<bar>x\<bar>"

text \<open>A value a float64 column can hold: rounding leaves a finite number as it is.\<close>

fun is_float64 :: "fl \<Rightarrow> bool" where
  "is_float64 (Fin x) = (round64 x = Fin x)"
| "is_float64 x = True"

text \<open>
  Subtraction. An exact difference of 0 is the positive zero, except for
  \<open>-0.0 - 0.0\<close>.
\<close>

fun fl_sub :: "fl \<Rightarrow> fl \<Rightarrow> fl" where
  "fl_sub NaN y = NaN"
| "fl_sub x NaN = NaN"
| "fl_sub PInf PInf = NaN"
| "fl_sub NInf NInf = NaN"
| "fl_sub PInf y = PInf"
| "fl_sub NInf y = NInf"
| "fl_sub x PInf = NInf"
| "fl_sub x NInf = PInf"
| "fl_sub NegZero NegZero = Fin 0"
| "fl_sub NegZero (Fin b) = (if b = 0 then NegZero else round64 (- b))"
| "fl_sub (Fin a) NegZero = round64 a"
| "fl_sub (Fin a) (Fin b) = round64 (a - b)"

text \<open>
  Multiplication and division. The sign of the result is the exclusive or of the signs
  of the operands, also when the result is a zero or an infinity. Division raises
  nothing: a nonzero value over a zero is an infinity, a zero over a zero is NaN.
\<close>

definition fl_mul :: "fl \<Rightarrow> fl \<Rightarrow> fl" where
  "fl_mul x y =
     (if x = NaN \<or> y = NaN then NaN
      else if is_inf x \<or> is_inf y then
        (if is_zero x \<or> is_zero y then NaN else fl_inf (fl_sign x \<noteq> fl_sign y))
      else round_mag (fl_sign x \<noteq> fl_sign y) (\<bar>fl_val x\<bar> * \<bar>fl_val y\<bar>))"

definition fl_div :: "fl \<Rightarrow> fl \<Rightarrow> fl" where
  "fl_div x y =
     (if x = NaN \<or> y = NaN then NaN
      else if is_inf x then (if is_inf y then NaN else fl_inf (fl_sign x \<noteq> fl_sign y))
      else if is_inf y then fl_zero (fl_sign x \<noteq> fl_sign y)
      else if is_zero y then (if is_zero x then NaN else fl_inf (fl_sign x \<noteq> fl_sign y))
      else round_mag (fl_sign x \<noteq> fl_sign y) (\<bar>fl_val x\<bar> / \<bar>fl_val y\<bar>))"

text \<open>
  Comparisons are exact; with NaN they are false, and the two zeros are equal. (The
  thresholds are Python integers; they are compared by value.)
\<close>

definition fl_le :: "fl \<Rightarrow> fl \<Rightarrow> bool" where
  "fl_le x y =
     (x \<noteq> NaN \<and> y \<noteq> NaN \<and>
      (x = NInf \<or> y = PInf \<or> (is_finite x \<and> is_finite y \<and> fl_val x \<le> fl_val y)))"

definition fl_ge :: "fl \<Rightarrow> fl \<Rightarrow> bool" where
  "fl_ge x y = fl_le y x"

text \<open>\<open>numpy.rint\<close> on a float: a negative number that rounds to 0 gives \<open>-0.0\<close>.\<close>

fun fl_rint :: "fl \<Rightarrow> fl" where
  "fl_rint (Fin x) = (if rint x = 0 \<and> x < 0 then NegZero else Fin (rint x))"
| "fl_rint x = x"

text \<open>
  \<open>Series.round(decimals)\<close> is numpy's \<open>round\<close>: multiply by \<open>10 ** decimals\<close>,
  \<open>rint\<close>, divide by \<open>10 ** decimals\<close>, each in float64.
\<close>

definition np_round :: "nat \<Rightarrow> fl \<Rightarrow> fl" where
  "np_round decimals x =
     fl_div (fl_rint (fl_mul x (Fin (10 ^ decimals)))) (Fin (10 ^ decimals))"

subsection \<open>Errors, columns and DataFrames\<close>

text \<open>
  \<open>KeyError\<close> is the exception of a missing column or dictionary key. \<open>NotModelled\<close>
  is no exception of the code: it marks an input this model does not cover.
\<close>

datatype error = KeyError string | NotModelled

fun bind_err :: "error + 'a \<Rightarrow> ('a \<Rightarrow> error + 'b) \<Rightarrow> error + 'b" where
  "bind_err (Inl e) f = Inl e"
| "bind_err (Inr x) f = f x"

text \<open>
  A column is a Series of one dtype: float64 numbers, strings, or booleans (the last two
  are what \<open>calculate_variances\<close> itself assigns). A DataFrame maps column names to
  columns; all columns of one DataFrame have the same number of rows, and an operation
  on two of them works row by row. The arithmetic is modelled on float64 columns. An
  int64 column that meets a float64 column is converted to float64 first (without
  rounding below \<open>2 ^ 53\<close>) and is modelled by its converted values; arithmetic on
  columns of any other dtype, or on two int64 columns, is \<open>NotModelled\<close>.
\<close>

datatype column = NumCol "fl list" | StrCol "string list" | BoolCol "bool list"

type_synonym dataframe = "string \<rightharpoonup> column"

definition getitem :: "dataframe \<Rightarrow> string \<Rightarrow> error + column" where
  "getitem df k = (case df k of None \<Rightarrow> Inl (KeyError k) | Some c \<Rightarrow> Inr c)"

definition setitem :: "dataframe \<Rightarrow> string \<Rightarrow> column \<Rightarrow> dataframe" where
  "setitem df k c = df(k \<mapsto> c)"

fun series_sub :: "column \<Rightarrow> column \<Rightarrow> error + column" where
  "series_sub (NumCol xs) (NumCol ys) = Inr (NumCol (map2 fl_sub xs ys))"
| "series_sub x y = Inl NotModelled"

fun series_div :: "column \<Rightarrow> column \<Rightarrow> error + column" where
  "series_div (NumCol xs) (NumCol ys) = Inr (NumCol (map2 fl_div xs ys))"
| "series_div x y = Inl NotModelled"

fun series_mul_scalar :: "column \<Rightarrow> real \<Rightarrow> error + column" where
  "series_mul_scalar (NumCol xs) k = Inr (NumCol (map (\<lambda>x. fl_mul x (Fin k)) xs))"
| "series_mul_scalar x k = Inl NotModelled"

fun series_round :: "column \<Rightarrow> nat \<Rightarrow> error + column" where
  "series_round (NumCol xs) decimals = Inr (NumCol (map (np_round decimals) xs))"
| "series_round x decimals = Inl NotModelled"

text \<open>
  \<open>Series.apply f\<close> calls \<open>f\<close> on every element in order, NaN included; the first
  exception of \<open>f\<close> ends it.
\<close>

fun apply_elems :: "('a \<Rightarrow> error + 'b) \<Rightarrow> 'a list \<Rightarrow> error + 'b list" where
  "apply_elems f [] = Inr []"
| "apply_elems f (x # xs) =
     bind_err (f x) (\<lambda>y. bind_err (apply_elems f xs) (\<lambda>ys. Inr (y # ys)))"

fun series_apply :: "column \<Rightarrow> (fl \<Rightarrow> error + string) \<Rightarrow> error + column" where
  "series_apply (NumCol xs) f = bind_err (apply_elems f xs) (\<lambda>ys. Inr (StrCol ys))"
| "series_apply x f = Inl NotModelled"

fun series_isin :: "column \<Rightarrow> string list \<Rightarrow> column" where
  "series_isin (StrCol ss) vals = BoolCol (map (\<lambda>s. s \<in> set vals) ss)"
| "series_isin (NumCol xs) vals = BoolCol (map (\<lambda>x. False) xs)"
| "series_isin (BoolCol bs) vals = BoolCol (map (\<lambda>b. False) bs)"

subsection \<open>The analyzer\<close>

record analyzer =
  variance_thresholds :: "string \<rightharpoonup> real"
  cost_centers :: "string \<rightharpoonup> string"

text \<open>\<open>__init__\<close> takes no argument besides \<open>self\<close> and checks nothing.\<close>

definition BudgetVarianceAnalyzer_init :: analyzer where
  "BudgetVarianceAnalyzer_init =
     \<lparr> variance_thresholds = map_of
         [(''significantly_over'', - 10),
          (''significantly_under'', 25),
          (''slightly_over'', - 5),
          (''slightly_under'', 15)],
       cost_centers = map_of
         [(''AIR_QUALITY'', ''Air Quality Monitoring''),
          (''WATER_TESTING'', ''Water Quality Testing''),
          (''WASTE_MGMT'', ''Waste Management''),
          (''SUSTAINABILITY'', ''Sustainability Programs''),
          (''COMPLIANCE'', ''Environmental Compliance'')] \<rparr>"


definition threshold :: "analyzer \<Rightarrow> string \<Rightarrow> error + fl" where
  "threshold self k =
     (case variance_thresholds self k of None \<Rightarrow> Inl (KeyError k) | Some t \<Rightarrow> Inr (Fin t))"

text \<open>
  The inner function of \<open>calculate_variances\<close>. Each threshold is looked up when its
  comparison is reached. The label of the second branch is spelled as in the source.
\<close>

definition categorize_variance :: "analyzer \<Rightarrow> fl \<Rightarrow> error + string" where
  "categorize_variance self variance_pct =
     bind_err (threshold self ''significantly_over'') (\<lambda>t1.
       if fl_le variance_pct t1 then Inr ''Significantly Overrun''
       else bind_err (threshold self ''slightly_over'') (\<lambda>t2.
         if fl_le variance_pct t2 then Inr ''Slighty Overrun''
         else bind_err (threshold self ''significantly_under'') (\<lambda>t3.
           if fl_ge variance_pct t3 then Inr ''Significantly Underspending''
           else bind_err (threshold self ''slightly_under'') (\<lambda>t4.
             if fl_ge variance_pct t4 then Inr ''Slightly Underspending''
             else Inr ''Within Target''))))"

subsection \<open>\<open>calculate_variances\<close>\<close>

text \<open>
  Each assignment of the body evaluates its right-hand side, which may raise, and then
  sets one column of \<open>df\<close>. A statement that raises leaves \<open>df\<close> as the statements
  before it made it.
\<close>

type_synonym stmt = "dataframe \<Rightarrow> error + dataframe"

fun run :: "stmt list \<Rightarrow> dataframe \<Rightarrow> error option \<times> dataframe" where
  "run [] df = (None, df)"
| "run (s # ss) df = (case s df of Inl e \<Rightarrow> (Some e, df) | Inr df' \<Rightarrow> run ss df')"

definition assign_budget_variance :: stmt where
  "assign_budget_variance df =
     bind_err (getitem df ''actual_spending'') (\<lambda>a.
     bind_err (getitem df ''monthly_budget'') (\<lambda>b.
     bind_err (series_sub a b) (\<lambda>v.
     Inr (setitem df ''budget_variance'' v))))"

definition assign_variance_pct :: stmt where
  "assign_variance_pct df =
     bind_err (getitem df ''budget_variance'') (\<lambda>v.
     bind_err (getitem df ''monthly_budget'') (\<lambda>b.
     bind_err (series_div v b) (\<lambda>q.
     bind_err (series_mul_scalar q 100) (\<lambda>p.
     bind_err (series_round p 2) (\<lambda>r.
     Inr (setitem df ''variance_pct'' r))))))"

definition assign_spending_rate :: stmt where
  "assign_spending_rate df =
     bind_err (getitem df ''actual_spending'') (\<lambda>a.
     bind_err (getitem df ''monthly_budget'') (\<lambda>b.
     bind_err (series_div a b) (\<lambda>q.
     bind_err (series_mul_scalar q 100) (\<lambda>p.
     bind_err (series_round p 2) (\<lambda>r.
     Inr (setitem df ''spending_rate'' r))))))"

definition assign_variance_category :: "analyzer \<Rightarrow> stmt" where
  "assign_variance_category self df =
     bind_err (getitem df ''variance_pct'') (\<lambda>p.
     bind_err (series_apply p (categorize_variance self)) (\<lambda>c.
     Inr (setitem df ''variance_category'' c)))"

definition assign_needs_attention :: stmt where
  "assign_needs_attention df =
     bind_err (getitem df ''variance_category'') (\<lambda>c.
     Inr (setitem df ''needs attention''
            (series_isin c [''Significantly Overrun'', ''Significantly Underspending''])))"

text \<open>
  The body of \<open>calculate_variances\<close> on the DataFrame it was handed: whether it raised,
  and the DataFrame as the call leaves it.
\<close>

definition calculate_variances_body :: "analyzer \<Rightarrow> dataframe \<Rightarrow> error option \<times> dataframe" where
  "calculate_variances_body self =
     run [assign_budget_variance, assign_variance_pct, assign_spending_rate,
          assign_variance_category self, assign_needs_attention]"

text \<open>
  The call itself. \<open>df\<close> is a reference to an object the caller holds; the assignments
  act on that object, and the value returned is the same reference.
\<close>

type_synonym addr = nat

type_synonym heap = "addr \<Rightarrow> dataframe"

definition calculate_variances :: "analyzer \<Rightarrow> addr \<Rightarrow> heap \<Rightarrow> (error + addr) \<times> heap" where
  "calculate_variances self df h =
     (case calculate_variances_body self (h df) of
        (None, d) \<Rightarrow> (Inr df, h(df := d))
      | (Some e, d) \<Rightarrow> (Inl e, h(df := d)))"

subsection \<open>Notions used to state the properties\<close>


definition spending_rate_raw :: "fl \<Rightarrow> fl \<Rightarrow> fl" where
  "spending_rate_raw a b = fl_mul (fl_div a b) (Fin 100)"

definition variance_pct_of :: "fl \<Rightarrow> fl \<Rightarrow> fl" where
  "variance_pct_of a b = np_round 2 (fl_mul (fl_div (fl_sub a b) b) (Fin 100))"

definition spending_rate_of :: "fl \<Rightarrow> fl \<Rightarrow> fl" where
  "spending_rate_of a b = np_round 2 (fl_mul (fl_div a b) (Fin 100))"

text \<open>Membership in the list of line 132.\<close>

definition flagged :: "string \<Rightarrow> bool" where
  "flagged c = (c = ''Significantly Overrun'' \<or> c = ''Significantly Underspending'')"

definition first_three :: "dataframe \<Rightarrow> fl list \<Rightarrow> fl list \<Rightarrow> dataframe" where
  "first_three df as bs =
     df(''budget_variance'' \<mapsto> NumCol (map2 fl_sub as bs),
        ''variance_pct'' \<mapsto> NumCol (map2 variance_pct_of as bs),
        ''spending_rate'' \<mapsto> NumCol (map2 spending_rate_of as bs))"

text \<open>The DataFrame after a call that raised nothing, given the categories \<open>cs\<close>.\<close>

definition with_results :: "dataframe \<Rightarrow> fl list \<Rightarrow> fl list \<Rightarrow> string list \<Rightarrow> dataframe" where
  "with_results df as bs cs =
     (first_three df as bs)(''variance_category'' \<mapsto> StrCol cs,
                            ''needs attention'' \<mapsto> BoolCol (map flagged cs))"

text \<open>A DataFrame of one record.\<close>

definition one_record :: "real \<Rightarrow> real \<Rightarrow> dataframe" where
  "one_record actual budget =
     [''actual_spending'' \<mapsto> NumCol [Fin actual], ''monthly_budget'' \<mapsto> NumCol [Fin budget]]"

text \<open>All four keys of the thresholds dictionary are present.\<close>

definition thresholds_complete :: "analyzer \<Rightarrow> bool" where
  "thresholds_complete self =
     (variance_thresholds self ''significantly_over'' \<noteq> None \<and>
      variance_thresholds self ''slightly_over'' \<noteq> None \<and>
      variance_thresholds self ''significantly_under'' \<noteq> None \<and>
      variance_thresholds self ''slightly_under'' \<noteq> None)"


text \<open>The columns that \<open>calculate_variances\<close> assigns.\<close>

definition assigned_columns :: "string list" where
  "assigned_columns =
     [''budget_variance'', ''variance_pct'', ''spending_rate'', ''variance_category'',
      ''needs attention'']"



text \<open>Two records with a budget of 10000: one 12 percent over it, one 13 percent under.\<close>

definition two_records :: dataframe where
  "two_records =
     [''actual_spending'' \<mapsto> NumCol [Fin 11200, Fin 8700],
      ''monthly_budget'' \<mapsto> NumCol [Fin 10000, Fin 10000]]"

text \<open>What the call makes of \<open>two_records\<close> (\<open>two_records_eval\<close> below).\<close>

definition two_records_result :: dataframe where
  "two_records_result =
     two_records
       (''budget_variance'' \<mapsto> NumCol [Fin 1200, Fin (- 1300)],
        ''variance_pct'' \<mapsto> NumCol [Fin 12, Fin (- 13)],
        ''spending_rate'' \<mapsto> NumCol [Fin 112, Fin 87],
        ''variance_category'' \<mapsto> StrCol [''Within Target'', ''Significantly Overrun''],
        ''needs attention'' \<mapsto> BoolCol [False, True])"

text \<open>A caller's heap: \<open>two_records\<close> at address 0, empty DataFrames elsewhere.\<close>

definition caller_heap :: heap where
  "caller_heap = (\<lambda>a. Map.empty)(0 := two_records)"

text \<open>
  Records without a budget: spending of 500 against each of the two zeros, and no
  spending against the positive zero.
\<close>

definition zero_budget_records :: dataframe where
  "zero_budget_records =
     [''actual_spending'' \<mapsto> NumCol [Fin 500, Fin 500, Fin 0],
      ''monthly_budget'' \<mapsto> NumCol [Fin 0, NegZero, Fin 0]]"

definition zero_budget_records_result :: dataframe where
  "zero_budget_records_result =
     zero_budget_records
       (''budget_variance'' \<mapsto> NumCol [Fin 500, Fin 500, Fin 0],
        ''variance_pct'' \<mapsto> NumCol [PInf, NInf, NaN],
        ''spending_rate'' \<mapsto> NumCol [PInf, NInf, NaN],
        ''variance_category'' \<mapsto>
           StrCol [''Significantly Underspending'', ''Significantly Overrun'', ''Within Target''],
        ''needs attention'' \<mapsto> BoolCol [True, True, False])"



text \<open>A record with a budget of 30000, one unit over it, and what the call makes of it.\<close>

definition large_budget_record :: dataframe where
  "large_budget_record = one_record 30001 30000"

definition large_budget_record_result :: dataframe where
  "large_budget_record_result =
     large_budget_record
       (''budget_variance'' \<mapsto> NumCol [Fin 1],
        ''variance_pct'' \<mapsto> NumCol [Fin 0],
        ''spending_rate'' \<mapsto> NumCol [Fin 100],
        ''variance_category'' \<mapsto> StrCol [''Within Target''],
        ''needs attention'' \<mapsto> BoolCol [False])"

text \<open>
  A record with spending of 500 against a budget of \<open>-0.0\<close>, and what the call makes
  of it.
\<close>

definition neg_zero_budget_record :: dataframe where
  "neg_zero_budget_record =
     [''actual_spending'' \<mapsto> NumCol [Fin 500], ''monthly_budget'' \<mapsto> NumCol [NegZero]]"

definition neg_zero_budget_record_result :: dataframe where
  "neg_zero_budget_record_result =
     neg_zero_budget_record
       (''budget_variance'' \<mapsto> NumCol [Fin 500],
        ''variance_pct'' \<mapsto> NumCol [NInf],
        ''spending_rate'' \<mapsto> NumCol [NInf],
        ''variance_category'' \<mapsto> StrCol [''Significantly Overrun''],
        ''needs attention'' \<mapsto> BoolCol [True])"

section \<open>Properties\<close>

subsection \<open>Evaluation\<close>

lemmas float_eval =
  round64_def round_mag_def expo_def pow2_def rint_def Let_def bit_length.simps
  fl_zero_def fl_inf_def is_inf_def is_zero_def fl_mul_def fl_div_def fl_le_def fl_ge_def
  np_round_def

lemmas body_eval =
  calculate_variances_body_def assign_budget_variance_def assign_variance_pct_def
  assign_spending_rate_def assign_variance_category_def assign_needs_attention_def
  getitem_def setitem_def categorize_variance_def threshold_def BudgetVarianceAnalyzer_init_def

lemma two_records_eval:
  "calculate_variances_body BudgetVarianceAnalyzer_init two_records = (None, two_records_result)"
  by (simp add: body_eval float_eval two_records_def two_records_result_def)

lemma zero_budget_records_eval:
  "calculate_variances_body BudgetVarianceAnalyzer_init zero_budget_records
     = (None, zero_budget_records_result)"
  by (simp add: body_eval float_eval zero_budget_records_def zero_budget_records_result_def)


lemma large_budget_record_eval:
  "calculate_variances_body BudgetVarianceAnalyzer_init large_budget_record
     = (None, large_budget_record_result)"
  by (simp add: body_eval float_eval one_record_def large_budget_record_def
      large_budget_record_result_def)

lemma float64_500: "is_float64 (Fin 500)"
  by (simp add: float_eval)

lemma neg_zero_budget_record_eval:
  "calculate_variances_body BudgetVarianceAnalyzer_init neg_zero_budget_record
     = (None, neg_zero_budget_record_result)"
  by (simp add: body_eval float_eval neg_zero_budget_record_def
      neg_zero_budget_record_result_def)

lemma neg_zero_budget_record_columns:
  "neg_zero_budget_record ''actual_spending'' = Some (NumCol [Fin 500])"
  "neg_zero_budget_record ''monthly_budget'' = Some (NumCol [NegZero])"
  "neg_zero_budget_record_result ''variance_pct'' = Some (NumCol [NInf])"
  "neg_zero_budget_record_result ''variance_category'' = Some (StrCol [''Significantly Overrun''])"
  "neg_zero_budget_record_result ''needs attention'' = Some (BoolCol [True])"
  by (simp_all add: neg_zero_budget_record_def neg_zero_budget_record_result_def)

text \<open>
  Two records on which the rounding of float64 decides. For budget 160 and actual
  spending 161 the spending rate is 100.625 exactly, but its float64 value is just above
  (100.62500000000001), and \<open>round(2)\<close> gives 100.63. For budget 20000 and actual
  spending 18001 the variance percentage -9.995 scaled by 100 is just above -999.5 in
  float64, \<open>round(2)\<close> gives -9.99, and the category is the second one.
\<close>

lemma representation_breaks_tie:
  "spending_rate_raw (Fin 161) (Fin 160) = Fin (7080854882877441 / 70368744177664)"
  "spending_rate_of (Fin 161) (Fin 160) = Fin (885150840824791 / 8796093022208)"
  "round64 (10063 / 100) = Fin (885150840824791 / 8796093022208)"
  by (simp_all add: spending_rate_raw_def spending_rate_of_def float_eval)

lemma just_above_threshold:
  "variance_pct_of (Fin 18001) (Fin 20000) = Fin (- (5623870034678907 / 562949953421312))"
  "round64 (- 999 / 100) = Fin (- (5623870034678907 / 562949953421312))"
  "categorize_variance BudgetVarianceAnalyzer_init (variance_pct_of (Fin 18001) (Fin 20000))
     = Inr ''Slighty Overrun''"
  by (simp_all add: variance_pct_of_def float_eval categorize_variance_def threshold_def
      BudgetVarianceAnalyzer_init_def)

subsection \<open>The body, row by row\<close>

lemma map2_spending_rate:
  "map (np_round 2) (map (\<lambda>x. fl_mul x (Fin 100)) (map2 fl_div as bs))
     = map2 spending_rate_of as bs"
  by (auto simp: spending_rate_of_def)

lemma map2_variance_pct:
  "map2 spending_rate_of (map2 fl_sub as bs) bs = map2 variance_pct_of as bs"
proof (induction as arbitrary: bs)
  case Nil
  show ?case by simp
next
  case (Cons a as)
  then show ?case by (cases bs) (simp_all add: variance_pct_of_def spending_rate_of_def)
qed

lemma run_first_three:
  assumes "df ''actual_spending'' = Some (NumCol as)"
    and "df ''monthly_budget'' = Some (NumCol bs)"
  shows "run (assign_budget_variance # assign_variance_pct # assign_spending_rate # ss) df
           = run ss (first_three df as bs)"
  using assms
  by (simp add: assign_budget_variance_def assign_variance_pct_def assign_spending_rate_def
      getitem_def setitem_def first_three_def map2_variance_pct map2_spending_rate
      del: map_map)

lemma isin_flagged:
  "series_isin (StrCol cs) [''Significantly Overrun'', ''Significantly Underspending'']
     = BoolCol (map flagged cs)"
  by (simp add: flagged_def)

lemma run_last_two:
  assumes "d ''variance_pct'' = Some (NumCol ps)"
  shows "run [assign_variance_category self, assign_needs_attention] d =
     (case apply_elems (categorize_variance self) ps of
        Inl e \<Rightarrow> (Some e, d)
      | Inr cs \<Rightarrow> (None, d(''variance_category'' \<mapsto> StrCol cs,
                            ''needs attention'' \<mapsto> BoolCol (map flagged cs))))"
  using assms
  by (cases "apply_elems (categorize_variance self) ps")
     (simp_all add: assign_variance_category_def assign_needs_attention_def getitem_def
        setitem_def isin_flagged del: series_isin.simps)

lemma body_numeric:
  assumes "df ''actual_spending'' = Some (NumCol as)"
    and "df ''monthly_budget'' = Some (NumCol bs)"
  shows "calculate_variances_body self df =
     (case apply_elems (categorize_variance self) (map2 variance_pct_of as bs) of
        Inl e \<Rightarrow> (Some e, first_three df as bs)
      | Inr cs \<Rightarrow> (None, (first_three df as bs)(''variance_category'' \<mapsto> StrCol cs,
                            ''needs attention'' \<mapsto> BoolCol (map flagged cs))))"
proof -
  have "first_three df as bs ''variance_pct'' = Some (NumCol (map2 variance_pct_of as bs))"
    by (simp add: first_three_def)
  then show ?thesis
    unfolding calculate_variances_body_def
    by (simp only: run_first_three [OF assms] run_last_two)
qed

lemma apply_elems_Inr_iff:
  "apply_elems f xs = Inr ys \<longleftrightarrow> list_all2 (\<lambda>x y. f x = Inr y) xs ys"
proof (induction xs arbitrary: ys)
  case Nil
  show ?case by auto
next
  case (Cons x xs)
  show ?case
  proof (cases "f x")
    case (Inl e)
    then show ?thesis by (auto simp: list_all2_Cons1)
  next
    case (Inr y)
    show ?thesis
    proof (cases "apply_elems f xs")
      case (Inl e)
      with Inr Cons.IH show ?thesis by (auto simp: list_all2_Cons1)
    next
      case r: (Inr zs)
      with Inr Cons.IH show ?thesis by (auto simp: list_all2_Cons1)
    qed
  qed
qed

lemma categorize_variance_total:
  assumes "thresholds_complete self"
  shows "\<exists>c. categorize_variance self p = Inr c"
  using assms
  by (auto simp: thresholds_complete_def categorize_variance_def threshold_def)

lemma apply_elems_total:
  assumes "\<And>x. \<exists>y. f x = Inr y"
  shows "\<exists>ys. apply_elems f xs = Inr ys"
proof (induction xs)
  case Nil
  show ?case by simp
next
  case (Cons x xs)
  from assms obtain y where "f x = Inr y" by blast
  moreover from Cons obtain ys where "apply_elems f xs = Inr ys" by blast
  ultimately show ?case by simp
qed

text \<open>
  With numeric input columns and a complete thresholds dictionary the call raises
  nothing, and every column it sets is computed row by row.
\<close>

lemma body_rows:
  assumes A: "df ''actual_spending'' = Some (NumCol as)"
    and B: "df ''monthly_budget'' = Some (NumCol bs)"
    and T: "thresholds_complete self"
  shows "\<exists>cs. calculate_variances_body self df =
            (None, (first_three df as bs)(''variance_category'' \<mapsto> StrCol cs,
                      ''needs attention'' \<mapsto> BoolCol (map flagged cs))) \<and>
          list_all2 (\<lambda>p c. categorize_variance self p = Inr c) (map2 variance_pct_of as bs) cs"
proof -
  from apply_elems_total [of "categorize_variance self"] categorize_variance_total [OF T]
  obtain cs where cs: "apply_elems (categorize_variance self) (map2 variance_pct_of as bs) = Inr cs"
    by blast
  then have "list_all2 (\<lambda>p c. categorize_variance self p = Inr c) (map2 variance_pct_of as bs) cs"
    by (simp add: apply_elems_Inr_iff)
  moreover from cs body_numeric [OF A B, of self]
  have "calculate_variances_body self df =
          (None, (first_three df as bs)(''variance_category'' \<mapsto> StrCol cs,
                    ''needs attention'' \<mapsto> BoolCol (map flagged cs)))"
    by simp
  ultimately show ?thesis by blast
qed

lemma init_complete: "thresholds_complete BudgetVarianceAnalyzer_init"
  by (simp add: thresholds_complete_def BudgetVarianceAnalyzer_init_def)

lemma with_results_lookup:
  "with_results df as bs cs ''actual_spending'' = df ''actual_spending''"
  "with_results df as bs cs ''monthly_budget'' = df ''monthly_budget''"
  "with_results df as bs cs ''budget_variance'' = Some (NumCol (map2 fl_sub as bs))"
  "with_results df as bs cs ''variance_pct'' = Some (NumCol (map2 variance_pct_of as bs))"
  "with_results df as bs cs ''spending_rate'' = Some (NumCol (map2 spending_rate_of as bs))"
  "with_results df as bs cs ''variance_category'' = Some (StrCol cs)"
  "with_results df as bs cs ''needs attention'' = Some (BoolCol (map flagged cs))"
  by (simp_all add: with_results_def first_three_def)

text \<open>A call that raised nothing, on numeric input columns.\<close>

lemma body_success:
  assumes A: "df ''actual_spending'' = Some (NumCol as)"
    and B: "df ''monthly_budget'' = Some (NumCol bs)"
    and R: "calculate_variances_body self df = (None, d)"
  shows "\<exists>cs. d = with_results df as bs cs \<and>
          list_all2 (\<lambda>p c. categorize_variance self p = Inr c) (map2 variance_pct_of as bs) cs"
proof (cases "apply_elems (categorize_variance self) (map2 variance_pct_of as bs)")
  case (Inl e)
  with body_numeric [OF A B, of self] R show ?thesis by simp
next
  case (Inr cs)
  with body_numeric [OF A B, of self] R have "d = with_results df as bs cs"
    by (simp add: with_results_def)
  moreover from Inr
  have "list_all2 (\<lambda>p c. categorize_variance self p = Inr c) (map2 variance_pct_of as bs) cs"
    by (simp add: apply_elems_Inr_iff)
  ultimately show ?thesis by blast
qed

lemma body_table:
  assumes A: "df ''actual_spending'' = Some (NumCol as)"
    and B: "df ''monthly_budget'' = Some (NumCol bs)"
    and T: "thresholds_complete self"
    and L: "length as = length bs"
  shows "\<exists>cs. calculate_variances_body self df = (None, with_results df as bs cs) \<and>
          length cs = length as \<and>
          (\<forall>i<length as. categorize_variance self (variance_pct_of (as ! i) (bs ! i)) = Inr (cs ! i))"
proof -
  from body_rows [OF A B T] obtain cs
    where R: "calculate_variances_body self df = (None, with_results df as bs cs)"
      and P: "list_all2 (\<lambda>p c. categorize_variance self p = Inr c) (map2 variance_pct_of as bs) cs"
    unfolding with_results_def by blast
  from P L have len: "length cs = length as"
    by (auto dest: list_all2_lengthD)
  have "categorize_variance self (variance_pct_of (as ! i) (bs ! i)) = Inr (cs ! i)"
    if "i < length as" for i
  proof -
    from that L have "i < length (map2 variance_pct_of as bs)" by simp
    from list_all2_nthD [OF P this] that L show ?thesis by simp
  qed
  with R len show ?thesis by blast
qed

text \<open>The same row by row, for a call that raised nothing.\<close>

lemma body_success_row:
  assumes A: "df ''actual_spending'' = Some (NumCol as)"
    and B: "df ''monthly_budget'' = Some (NumCol bs)"
    and L: "length as = length bs"
    and R: "calculate_variances_body self df = (None, d)"
  shows "\<exists>cs. d = with_results df as bs cs \<and> length cs = length as \<and>
          (\<forall>i<length as. categorize_variance self (variance_pct_of (as ! i) (bs ! i)) = Inr (cs ! i))"
proof -
  from body_success [OF A B R] obtain cs
    where D: "d = with_results df as bs cs"
      and P: "list_all2 (\<lambda>p c. categorize_variance self p = Inr c) (map2 variance_pct_of as bs) cs"
    by blast
  from P L have len: "length cs = length as"
    by (auto dest: list_all2_lengthD)
  have "categorize_variance self (variance_pct_of (as ! i) (bs ! i)) = Inr (cs ! i)"
    if "i < length as" for i
  proof -
    from that L have "i < length (map2 variance_pct_of as bs)" by simp
    from list_all2_nthD [OF P this] that L show ?thesis by simp
  qed
  with D len show ?thesis by blast
qed

subsection \<open>Statement by statement\<close>

lemma bind_err_Inr_iff: "bind_err m f = Inr y \<longleftrightarrow> (\<exists>x. m = Inr x \<and> f x = Inr y)"
  by (cases m) simp_all

lemma run_Cons_None:
  assumes "run (s # ss) df = (None, d)"
  shows "\<exists>d'. s df = Inr d' \<and> run ss d' = (None, d)"
  using assms by (cases "s df") simp_all

lemma assign_budget_variance_sets:
  "assign_budget_variance df = Inr d \<Longrightarrow> \<exists>c. d = df(''budget_variance'' \<mapsto> c)"
  by (auto simp: assign_budget_variance_def bind_err_Inr_iff setitem_def)

lemma assign_variance_pct_sets:
  "assign_variance_pct df = Inr d \<Longrightarrow> \<exists>c. d = df(''variance_pct'' \<mapsto> c)"
  by (auto simp: assign_variance_pct_def bind_err_Inr_iff setitem_def)

lemma assign_spending_rate_sets:
  "assign_spending_rate df = Inr d \<Longrightarrow> \<exists>c. d = df(''spending_rate'' \<mapsto> c)"
  by (auto simp: assign_spending_rate_def bind_err_Inr_iff setitem_def)

lemma series_apply_Inr:
  assumes "series_apply p f = Inr c"
  shows "\<exists>cs. c = StrCol cs"
  using assms by (cases p) (auto simp: bind_err_Inr_iff)

lemma assign_variance_category_sets:
  assumes "assign_variance_category self df = Inr d"
  shows "\<exists>cs. d = df(''variance_category'' \<mapsto> StrCol cs)"
proof -
  from assms obtain p c where "series_apply p (categorize_variance self) = Inr c"
    and d: "d = df(''variance_category'' \<mapsto> c)"
    by (auto simp: assign_variance_category_def bind_err_Inr_iff setitem_def)
  with series_apply_Inr show ?thesis by blast
qed

lemma assign_needs_attention_sets:
  assumes "assign_needs_attention df = Inr d"
    and "df ''variance_category'' = Some (StrCol cs)"
  shows "d = df(''needs attention'' \<mapsto> BoolCol (map flagged cs))"
  using assms
  by (auto simp: assign_needs_attention_def bind_err_Inr_iff setitem_def getitem_def
      isin_flagged simp del: series_isin.simps)

lemma assign_needs_attention_sets_some:
  "assign_needs_attention df = Inr d \<Longrightarrow> \<exists>c. d = df(''needs attention'' \<mapsto> c)"
  by (auto simp: assign_needs_attention_def bind_err_Inr_iff setitem_def)

text \<open>A column that no statement of a list sets is as it was, whether the run raised or not.\<close>

lemma run_frame:
  assumes "\<forall>s\<in>set ss. \<forall>df d. s df = Inr d \<longrightarrow> d k = df k"
    and "run ss df = (r, d)"
  shows "d k = df k"
  using assms
proof (induction ss arbitrary: df)
  case Nil
  then show ?case by simp
next
  case (Cons s ss)
  show ?case
  proof (cases "s df")
    case (Inl e)
    with Cons.prems(2) show ?thesis by simp
  next
    case (Inr d')
    with Cons.prems(2) have "run ss d' = (r, d)" by simp
    moreover from Cons.prems(1) have "\<forall>s\<in>set ss. \<forall>df d. s df = Inr d \<longrightarrow> d k = df k"
      by simp
    ultimately have "d k = d' k" by (rule Cons.IH [rotated])
    moreover from Cons.prems(1) Inr have "d' k = df k" by simp
    ultimately show ?thesis by simp
  qed
qed

lemma stmt_sets_assigned_column:
  assumes "s \<in> set [assign_budget_variance, assign_variance_pct, assign_spending_rate,
                      assign_variance_category self, assign_needs_attention]"
    and "s df = Inr d"
  shows "\<exists>n c. n \<in> set assigned_columns \<and> d = df(n \<mapsto> c)"
  using assms assign_budget_variance_sets [of df d] assign_variance_pct_sets [of df d]
    assign_spending_rate_sets [of df d] assign_variance_category_sets [of self df d]
    assign_needs_attention_sets_some [of df d]
  by (auto simp: assigned_columns_def)

lemma body_frame:
  assumes "calculate_variances_body self df = (r, d)"
    and "k \<notin> set assigned_columns"
  shows "d k = df k"
proof -
  have "\<forall>s\<in>set [assign_budget_variance, assign_variance_pct, assign_spending_rate,
                   assign_variance_category self, assign_needs_attention].
          \<forall>df d. s df = Inr d \<longrightarrow> d k = df k"
  proof (intro ballI allI impI)
    fix s :: stmt and df d
    assume "s \<in> set [assign_budget_variance, assign_variance_pct, assign_spending_rate,
                      assign_variance_category self, assign_needs_attention]"
      and "s df = Inr d"
    from stmt_sets_assigned_column [OF this] assms(2) show "d k = df k" by auto
  qed
  from run_frame [OF this] assms(1) show ?thesis
    by (simp add: calculate_variances_body_def)
qed

lemma series_sub_Inr: "series_sub a b = Inr c \<Longrightarrow> \<exists>vs. c = NumCol vs"
  by (cases a; cases b) auto

lemma series_round_Inr: "series_round a n = Inr c \<Longrightarrow> \<exists>vs. c = NumCol vs"
  by (cases a) auto

lemma assign_budget_variance_sets_num:
  assumes "assign_budget_variance df = Inr d"
  shows "\<exists>vs. d = df(''budget_variance'' \<mapsto> NumCol vs)"
proof -
  from assms obtain a b c where "series_sub a b = Inr c"
    and "d = df(''budget_variance'' \<mapsto> c)"
    by (auto simp: assign_budget_variance_def bind_err_Inr_iff setitem_def)
  with series_sub_Inr show ?thesis by blast
qed

lemma assign_variance_pct_sets_num:
  assumes "assign_variance_pct df = Inr d"
  shows "\<exists>ps. d = df(''variance_pct'' \<mapsto> NumCol ps)"
proof -
  from assms obtain a c where "series_round a 2 = Inr c"
    and "d = df(''variance_pct'' \<mapsto> c)"
    by (auto simp: assign_variance_pct_def bind_err_Inr_iff setitem_def)
  with series_round_Inr show ?thesis by blast
qed

lemma assign_spending_rate_sets_num:
  assumes "assign_spending_rate df = Inr d"
  shows "\<exists>rs. d = df(''spending_rate'' \<mapsto> NumCol rs)"
proof -
  from assms obtain a c where "series_round a 2 = Inr c"
    and "d = df(''spending_rate'' \<mapsto> c)"
    by (auto simp: assign_spending_rate_def bind_err_Inr_iff setitem_def)
  with series_round_Inr show ?thesis by blast
qed

text \<open>A call that raised nothing has assigned all five columns.\<close>

lemma body_success_columns:
  assumes "calculate_variances_body self df = (None, d)"
  shows "\<exists>vs ps rs cs.
           d ''budget_variance'' = Some (NumCol vs) \<and>
           d ''variance_pct'' = Some (NumCol ps) \<and>
           d ''spending_rate'' = Some (NumCol rs) \<and>
           d ''variance_category'' = Some (StrCol cs) \<and>
           d ''needs attention'' = Some (BoolCol (map flagged cs))"
proof -
  from assms obtain d1 where s1: "assign_budget_variance df = Inr d1"
    and "run [assign_variance_pct, assign_spending_rate,
      assign_variance_category self, assign_needs_attention] d1 = (None, d)"
    unfolding calculate_variances_body_def by (blast dest: run_Cons_None)
  then obtain d2 where s2: "assign_variance_pct d1 = Inr d2"
    and "run [assign_spending_rate,
      assign_variance_category self, assign_needs_attention] d2 = (None, d)"
    by (blast dest: run_Cons_None)
  then obtain d3 where s3: "assign_spending_rate d2 = Inr d3"
    and "run [assign_variance_category self, assign_needs_attention] d3 = (None, d)"
    by (blast dest: run_Cons_None)
  then obtain d4 where s4: "assign_variance_category self d3 = Inr d4"
    and "run [assign_needs_attention] d4 = (None, d)"
    by (blast dest: run_Cons_None)
  then obtain d5 where s5: "assign_needs_attention d4 = Inr d5" and "run [] d5 = (None, d)"
    by (blast dest: run_Cons_None)
  then have d5: "d5 = d" by simp
  from assign_budget_variance_sets_num [OF s1] obtain vs
    where d1: "d1 = df(''budget_variance'' \<mapsto> NumCol vs)" by blast
  from assign_variance_pct_sets_num [OF s2] obtain ps
    where d2: "d2 = d1(''variance_pct'' \<mapsto> NumCol ps)" by blast
  from assign_spending_rate_sets_num [OF s3] obtain rs
    where d3: "d3 = d2(''spending_rate'' \<mapsto> NumCol rs)" by blast
  from assign_variance_category_sets [OF s4] obtain cs
    where d4: "d4 = d3(''variance_category'' \<mapsto> StrCol cs)" by blast
  then have "d4 ''variance_category'' = Some (StrCol cs)" by simp
  from assign_needs_attention_sets [OF s5 this] d5
  have d: "d = d4(''needs attention'' \<mapsto> BoolCol (map flagged cs))" by simp
  have "d ''budget_variance'' = Some (NumCol vs)" "d ''variance_pct'' = Some (NumCol ps)"
    "d ''spending_rate'' = Some (NumCol rs)" "d ''variance_category'' = Some (StrCol cs)"
    "d ''needs attention'' = Some (BoolCol (map flagged cs))"
    unfolding d d4 d3 d2 d1 by simp_all
  then show ?thesis by blast
qed

subsection \<open>Columns of the example runs\<close>

lemma two_records_columns:
  "two_records ''actual_spending'' = Some (NumCol [Fin 11200, Fin 8700])"
  "two_records ''monthly_budget'' = Some (NumCol [Fin 10000, Fin 10000])"
  by (simp_all add: two_records_def)

lemma two_records_result_columns:
  "two_records_result ''actual_spending'' = Some (NumCol [Fin 11200, Fin 8700])"
  "two_records_result ''monthly_budget'' = Some (NumCol [Fin 10000, Fin 10000])"
  "two_records_result ''budget_variance'' = Some (NumCol [Fin 1200, Fin (- 1300)])"
  "two_records_result ''variance_pct'' = Some (NumCol [Fin 12, Fin (- 13)])"
  "two_records_result ''spending_rate'' = Some (NumCol [Fin 112, Fin 87])"
  "two_records_result ''variance_category'' = Some (StrCol [''Within Target'', ''Significantly Overrun''])"
  "two_records_result ''needs attention'' = Some (BoolCol [False, True])"
  by (simp_all add: two_records_result_def two_records_def)

lemma zero_budget_records_columns:
  "zero_budget_records ''actual_spending'' = Some (NumCol [Fin 500, Fin 500, Fin 0])"
  "zero_budget_records ''monthly_budget'' = Some (NumCol [Fin 0, NegZero, Fin 0])"
  "zero_budget_records_result ''variance_pct'' = Some (NumCol [PInf, NInf, NaN])"
  "zero_budget_records_result ''spending_rate'' = Some (NumCol [PInf, NInf, NaN])"
  "zero_budget_records_result ''variance_category'' =
     Some (StrCol [''Significantly Underspending'', ''Significantly Overrun'', ''Within Target''])"
  "zero_budget_records_result ''needs attention'' = Some (BoolCol [True, True, False])"
  by (simp_all add: zero_budget_records_def zero_budget_records_result_def)


lemma large_budget_record_columns:
  "large_budget_record ''actual_spending'' = Some (NumCol [Fin 30001])"
  "large_budget_record ''monthly_budget'' = Some (NumCol [Fin 30000])"
  "large_budget_record_result ''budget_variance'' = Some (NumCol [Fin 1])"
  "large_budget_record_result ''variance_pct'' = Some (NumCol [Fin 0])"
  by (simp_all add: large_budget_record_def large_budget_record_result_def one_record_def)

subsection \<open>Rounding to an integer\<close>




lemma rint_near: "\<bar>y - rint y\<bar> \<le> 1 / 2"
proof -
  have "of_int \<lfloor>y\<rfloor> \<le> y" and "y < of_int \<lfloor>y\<rfloor> + 1" by linarith+
  then show ?thesis by (auto simp: rint_def Let_def)
qed


subsection \<open>Rounding to float64\<close>

lemma bit_length_bounds:
  "0 < n \<Longrightarrow> 2 ^ (bit_length n - 1) \<le> n \<and> n < 2 ^ bit_length n"
proof (induction n rule: bit_length.induct)
  case (1 n)
  show ?case
  proof (cases "n div 2 = 0")
    case True
    with "1.prems" have "n = 1" by (simp add: div_eq_0_iff) 
    then show ?thesis by (simp add: bit_length.simps)
  next
    case False
    with "1.IH" "1.prems" have IH: "2 ^ (bit_length (n div 2) - 1) \<le> n div 2"
      "n div 2 < 2 ^ bit_length (n div 2)" by simp_all
    from False have pos: "0 < bit_length (n div 2)" by (simp add: bit_length.simps)
    from "1.prems" have bl: "bit_length n = Suc (bit_length (n div 2))"
      by (subst bit_length.simps) simp
    from pos have "(2::nat) ^ bit_length (n div 2) = 2 * 2 ^ (bit_length (n div 2) - 1)"
      by (cases "bit_length (n div 2)") simp_all
    with IH(1) have "2 ^ bit_length (n div 2) \<le> n" by linarith
    moreover from IH(2) have "n < 2 * 2 ^ bit_length (n div 2)" by linarith
    ultimately show ?thesis by (simp add: bl)
  qed
qed

lemma pow2_pos: "0 < pow2 e"
  by (simp add: pow2_def)

lemma pow2_powi: "pow2 e = 2 powi e"
  by (simp add: pow2_def power_int_def power_one_over inverse_eq_divide)

lemma pow2_diff: "pow2 (e - d) = pow2 e / pow2 d"
  by (simp add: pow2_powi power_int_diff)

lemma expo_le:
  assumes "0 < m"
  shows "pow2 (expo m) \<le> m"
proof (cases "1 \<le> m")
  case True
  let ?n = "nat \<lfloor>m\<rfloor>"
  from True have n: "0 < ?n" by simp
  from bit_length_bounds [OF n] have "2 ^ (bit_length ?n - 1) \<le> ?n" by simp
  then have "(2::real) ^ (bit_length ?n - 1) \<le> real ?n"
    by (metis of_nat_le_iff of_nat_numeral of_nat_power)
  also from True have "real ?n \<le> m" by simp
  finally have le: "(2::real) ^ (bit_length ?n - 1) \<le> m" .
  from bit_length_bounds [OF n] n have "0 < bit_length ?n"
    by (cases "bit_length ?n") simp_all
  then have "pow2 (int (bit_length ?n) - 1) = 2 ^ (bit_length ?n - 1)"
    by (simp add: pow2_def nat_diff_distrib')
  with le True show ?thesis by (simp add: expo_def)
next
  case False
  define c where "c = \<lceil>1 / m\<rceil>"
  define n where "n = nat (c - 1)"
  from False assms have "1 < 1 / m" by simp
  then have c: "2 \<le> c" unfolding c_def by linarith
  then have n: "0 < n" by (simp add: n_def)
  from bit_length_bounds [OF n] have "n < 2 ^ bit_length n" by simp
  then have "Suc n \<le> 2 ^ bit_length n" by (rule Suc_leI)
  then have "real (Suc n) \<le> real (2 ^ bit_length n)" by (rule iffD2 [OF of_nat_le_iff])
  then have "real (Suc n) \<le> 2 ^ bit_length n" by simp
  moreover from c have "real (Suc n) = of_int c" by (simp add: n_def)
  moreover have "1 / m \<le> of_int c" unfolding c_def by linarith
  ultimately have "1 / m \<le> 2 ^ bit_length n" by linarith
  with assms have "1 / 2 ^ bit_length n \<le> m"
    by (simp add: field_simps)
  moreover have "pow2 (- int (bit_length n)) = 1 / 2 ^ bit_length n"
    by (simp add: pow2_def)
  ultimately show ?thesis using False by (simp add: expo_def c_def n_def)
qed

lemma round_mag_error:
  assumes m: "0 \<le> m" and fin: "is_finite (round_mag s m)"
  shows "\<bar>fl_val (round_mag s m) - (if s then - m else m)\<bar> \<le> m / 2 ^ 53 + 1 / 2 ^ 1075"
proof (cases "m = 0")
  case True
  then show ?thesis by (simp add: round_mag_def fl_zero_def)
next
  case False
  with m have pos: "0 < m" by simp
  define e where "e = max (expo m) (- 1022)"
  define u where "u = pow2 (e - 52)"
  define r where "r = rint (m / u) * u"
  have u: "0 < u" by (simp add: u_def pow2_pos)
  have rm: "round_mag s m =
      (if pow2 1024 \<le> r then fl_inf s else if r = 0 then fl_zero s
       else Fin (if s then - r else r))"
    using False by (simp add: round_mag_def Let_def e_def u_def r_def)
  from fin rm have nov: "\<not> pow2 1024 \<le> r"
    by (auto simp: fl_inf_def split: if_splits)
  with rm have val: "fl_val (round_mag s m) = (if s then - r else r)"
    by (simp add: fl_zero_def)
  have "\<bar>r - m\<bar> = u * \<bar>rint (m / u) - m / u\<bar>"
  proof -
    from u have "r - m = u * (rint (m / u) - m / u)"
      by (simp add: r_def field_simps)
    then have "\<bar>r - m\<bar> = \<bar>u * (rint (m / u) - m / u)\<bar>" by (simp only:)
    with u show ?thesis by (simp add: abs_mult)
  qed
  also from u rint_near [of "m / u"] have "\<dots> \<le> u * (1 / 2)"
    by (intro mult_left_mono) (simp_all add: abs_minus_commute)
  finally have err: "\<bar>r - m\<bar> \<le> u / 2" by simp
  have "u / 2 \<le> m / 2 ^ 53 + 1 / 2 ^ 1075"
  proof (cases "- 1022 \<le> expo m")
    case True
    then have "e = expo m" by (simp add: e_def)
    then have "u = pow2 (expo m) / 2 ^ 52"
      by (simp add: u_def pow2_diff) (simp add: pow2_def)
    with expo_le [OF pos] have "u / 2 \<le> m / 2 ^ 53"
      by (simp add: field_simps)
    then show ?thesis by (simp add: add_increasing2)
  next
    case False
    then have "e = - 1022" by (simp add: e_def)
    then have "u = 1 / 2 ^ 1074" by (simp add: u_def pow2_def)
    then have "u / 2 = 1 / 2 ^ 1075" by simp
    with pos show ?thesis by simp
  qed
  with err have "\<bar>r - m\<bar> \<le> m / 2 ^ 53 + 1 / 2 ^ 1075" by linarith
  with val show ?thesis by (cases s) (simp_all add: abs_minus_commute)
qed

lemma fl_val_sign: "is_finite x \<Longrightarrow> (if fl_sign x then - \<bar>fl_val x\<bar> else \<bar>fl_val x\<bar>) = fl_val x"
  by (cases x) auto

lemma fl_div_error:
  assumes c: "0 < c" and fin: "is_finite (fl_div x (Fin c))"
  shows "is_finite x \<and>
         \<bar>fl_val (fl_div x (Fin c)) - fl_val x / c\<bar> \<le> \<bar>fl_val x / c\<bar> / 2 ^ 53 + 1 / 2 ^ 1075"
proof -
  from fin c have x: "is_finite x"
    by (cases x) (simp_all add: fl_div_def is_inf_def is_zero_def fl_inf_def)
  with c have d: "fl_div x (Fin c) = round_mag (fl_sign x) (\<bar>fl_val x\<bar> / c)"
    by (cases x) (simp_all add: fl_div_def is_inf_def is_zero_def)
  have "0 \<le> \<bar>fl_val x\<bar> / c" using c by simp
  from round_mag_error [OF this fin [unfolded d]] c fl_val_sign [OF x]
  have "\<bar>fl_val (fl_div x (Fin c)) - fl_val x / c\<bar> \<le> \<bar>fl_val x\<bar> / c / 2 ^ 53 + 1 / 2 ^ 1075"
    unfolding d by (cases "fl_sign x") (simp_all add: divide_simps split: if_splits)
  with x c show ?thesis by simp
qed

lemma fl_mul_error:
  assumes c: "0 < c" and fin: "is_finite (fl_mul x (Fin c))"
  shows "is_finite x \<and>
         \<bar>fl_val (fl_mul x (Fin c)) - fl_val x * c\<bar> \<le> \<bar>fl_val x * c\<bar> / 2 ^ 53 + 1 / 2 ^ 1075"
proof -
  from fin c have x: "is_finite x"
    by (cases x) (simp_all add: fl_mul_def is_inf_def is_zero_def fl_inf_def)
  with c have d: "fl_mul x (Fin c) = round_mag (fl_sign x) (\<bar>fl_val x\<bar> * c)"
    by (cases x) (simp_all add: fl_mul_def is_inf_def is_zero_def)
  have "0 \<le> \<bar>fl_val x\<bar> * c" using c by simp
  from round_mag_error [OF this fin [unfolded d]] c fl_val_sign [OF x]
  have "\<bar>fl_val (fl_mul x (Fin c)) - fl_val x * c\<bar> \<le> \<bar>fl_val x\<bar> * c / 2 ^ 53 + 1 / 2 ^ 1075"
    unfolding d by (cases "fl_sign x") (simp_all split: if_splits)
  with x c show ?thesis by (simp add: abs_mult)
qed

lemma fl_rint_error:
  assumes "is_finite (fl_rint y)"
  shows "is_finite y \<and> \<bar>fl_val (fl_rint y) - fl_val y\<bar> \<le> 1 / 2"
proof (cases y)
  case (Fin x)
  with rint_near [of x] show ?thesis by (auto simp: abs_minus_commute)
qed (use assms in simp_all)

text \<open>The chain of roundings of line 114, as inequalities between reals.\<close>

lemma round_trip_chain:
  fixes v b q p y k r :: real
  assumes b: "0 < b"
    and q: "\<bar>q - v / b\<bar> \<le> \<bar>v / b\<bar> / 2 ^ 53 + 1 / 2 ^ 1075"
    and p: "\<bar>p - q * 100\<bar> \<le> \<bar>q * 100\<bar> / 2 ^ 53 + 1 / 2 ^ 1075"
    and y: "\<bar>y - p * 100\<bar> \<le> \<bar>p * 100\<bar> / 2 ^ 53 + 1 / 2 ^ 1075"
    and k: "\<bar>k - y\<bar> \<le> 1 / 2"
    and r: "\<bar>r - k / 100\<bar> \<le> \<bar>k / 100\<bar> / 2 ^ 53 + 1 / 2 ^ 1075"
  shows "\<bar>v - b * (r / 100)\<bar> \<le> b / 20000 + (\<bar>v\<bar> + b) / 2 ^ 49"
proof -
  have eta: "(1::real) / 2 ^ 1075 \<le> 1 / 2 ^ 60"
    by (intro divide_left_mono power_increasing) simp_all
  define Q P Y K R where "Q = b * q" and "P = b * p" and "Y = b * y" and "K = b * k" and "R = b * r"
  have scale: "b * \<bar>z\<bar> = \<bar>b * z\<bar>" for z using b by (simp add: abs_mult)
  have Q: "\<bar>Q - v\<bar> \<le> \<bar>v\<bar> / 2 ^ 53 + b / 2 ^ 60"
  proof -
    from q eta have "\<bar>q - v / b\<bar> \<le> \<bar>v / b\<bar> / 2 ^ 53 + 1 / 2 ^ 60" by linarith
    with b have "b * \<bar>q - v / b\<bar> \<le> b * (\<bar>v / b\<bar> / 2 ^ 53 + 1 / 2 ^ 60)"
      by (intro mult_left_mono) simp_all
    moreover from b have "b * \<bar>q - v / b\<bar> = \<bar>Q - v\<bar>"
      by (simp add: scale Q_def algebra_simps)
    moreover from b have "b * (\<bar>v / b\<bar> / 2 ^ 53 + 1 / 2 ^ 60) = \<bar>v\<bar> / 2 ^ 53 + b / 2 ^ 60"
      by (simp add: algebra_simps)
    ultimately show ?thesis by simp
  qed
  have P: "\<bar>P - Q * 100\<bar> \<le> \<bar>Q * 100\<bar> / 2 ^ 53 + b / 2 ^ 60"
  proof -
    from p eta have "\<bar>p - q * 100\<bar> \<le> \<bar>q * 100\<bar> / 2 ^ 53 + 1 / 2 ^ 60" by linarith
    with b have "b * \<bar>p - q * 100\<bar> \<le> b * (\<bar>q * 100\<bar> / 2 ^ 53 + 1 / 2 ^ 60)"
      by (intro mult_left_mono) simp_all
    moreover have "b * \<bar>p - q * 100\<bar> = \<bar>P - Q * 100\<bar>"
      by (simp add: scale P_def Q_def algebra_simps)
    moreover have "b * (\<bar>q * 100\<bar> / 2 ^ 53 + 1 / 2 ^ 60) = \<bar>Q * 100\<bar> / 2 ^ 53 + b / 2 ^ 60"
      using scale [of "q * 100"] by (simp add: Q_def algebra_simps)
    ultimately show ?thesis by simp
  qed
  have Y: "\<bar>Y - P * 100\<bar> \<le> \<bar>P * 100\<bar> / 2 ^ 53 + b / 2 ^ 60"
  proof -
    from y eta have "\<bar>y - p * 100\<bar> \<le> \<bar>p * 100\<bar> / 2 ^ 53 + 1 / 2 ^ 60" by linarith
    with b have "b * \<bar>y - p * 100\<bar> \<le> b * (\<bar>p * 100\<bar> / 2 ^ 53 + 1 / 2 ^ 60)"
      by (intro mult_left_mono) simp_all
    moreover have "b * \<bar>y - p * 100\<bar> = \<bar>Y - P * 100\<bar>"
      by (simp add: scale P_def Y_def algebra_simps)
    moreover have "b * (\<bar>p * 100\<bar> / 2 ^ 53 + 1 / 2 ^ 60) = \<bar>P * 100\<bar> / 2 ^ 53 + b / 2 ^ 60"
      using scale [of "p * 100"] by (simp add: P_def algebra_simps)
    ultimately show ?thesis by simp
  qed
  have K: "\<bar>K - Y\<bar> \<le> b / 2"
  proof -
    from k b have "b * \<bar>k - y\<bar> \<le> b * (1 / 2)" by (intro mult_left_mono) simp_all
    moreover have "b * \<bar>k - y\<bar> = \<bar>K - Y\<bar>" by (simp add: scale K_def Y_def algebra_simps)
    ultimately show ?thesis by simp
  qed
  have R: "\<bar>R - K / 100\<bar> \<le> \<bar>K / 100\<bar> / 2 ^ 53 + b / 2 ^ 60"
  proof -
    from r eta have "\<bar>r - k / 100\<bar> \<le> \<bar>k / 100\<bar> / 2 ^ 53 + 1 / 2 ^ 60" by linarith
    with b have "b * \<bar>r - k / 100\<bar> \<le> b * (\<bar>k / 100\<bar> / 2 ^ 53 + 1 / 2 ^ 60)"
      by (intro mult_left_mono) simp_all
    moreover have "b * \<bar>r - k / 100\<bar> = \<bar>R - K / 100\<bar>"
      by (simp add: scale R_def K_def algebra_simps)
    moreover have "b * (\<bar>k / 100\<bar> / 2 ^ 53 + 1 / 2 ^ 60) = \<bar>K / 100\<bar> / 2 ^ 53 + b / 2 ^ 60"
      using scale [of "k / 100"] by (simp add: K_def algebra_simps)
    ultimately show ?thesis by simp
  qed
  have nums: "(2::real) ^ 44 = 17592186044416" "(2::real) ^ 49 = 562949953421312"
    "(2::real) ^ 52 = 4503599627370496" "(2::real) ^ 53 = 9007199254740992"
    "(2::real) ^ 58 = 288230376151711744"
    "(2::real) ^ 59 = 576460752303423488" "(2::real) ^ 60 = 1152921504606846976"
    by simp_all
  from Q have Qb: "\<bar>Q\<bar> \<le> 2 * \<bar>v\<bar> + b / 2 ^ 60" unfolding nums by linarith
  from P Qb b have Pb: "\<bar>P\<bar> \<le> 400 * \<bar>v\<bar> + b / 2 ^ 52" unfolding nums by linarith
  from Y Pb b have Yb: "\<bar>Y\<bar> \<le> 80000 * \<bar>v\<bar> + b / 2 ^ 44" unfolding nums by linarith
  from K Yb b have Kb: "\<bar>K\<bar> \<le> 80000 * \<bar>v\<bar> + b" unfolding nums by linarith
  from Q have E1: "\<bar>Q - v\<bar> \<le> \<bar>v\<bar> / 2 ^ 53 + b / 2 ^ 60" .
  from P Qb b have E2: "\<bar>P - Q * 100\<bar> \<le> 200 * \<bar>v\<bar> / 2 ^ 53 + b / 2 ^ 59"
    unfolding nums by linarith
  from Y Pb b have E3: "\<bar>Y - P * 100\<bar> \<le> 40000 * \<bar>v\<bar> / 2 ^ 53 + b / 2 ^ 59"
    unfolding nums by linarith
  from R Kb b have E5: "\<bar>R - K / 100\<bar> \<le> 800 * \<bar>v\<bar> / 2 ^ 53 + b / 2 ^ 52"
    unfolding nums by linarith
  define w where "w = \<bar>v\<bar>"
  have w0: "0 \<le> w" by (simp add: w_def)
  note bounds = E1 [folded w_def] E2 [folded w_def] E3 [folded w_def] K E5 [folded w_def]
  note two_sided = bounds [THEN abs_le_D1, unfolded nums] bounds [THEN abs_le_D2, unfolded nums]
  have u1: "v - P / 100 \<le> 3 * w / 2 ^ 53 + b / 2 ^ 59"
    and l1: "- (v - P / 100) \<le> 3 * w / 2 ^ 53 + b / 2 ^ 59"
    using two_sided(1,2,6,7) b w0 unfolding nums by linarith+
  have u2: "v - Y / 10000 \<le> 7 * w / 2 ^ 53 + b / 2 ^ 58"
    and l2: "- (v - Y / 10000) \<le> 7 * w / 2 ^ 53 + b / 2 ^ 58"
    using u1 l1 two_sided(3,8) b w0 unfolding nums by linarith+
  have u3: "v - K / 10000 \<le> 7 * w / 2 ^ 53 + b / 2 ^ 58 + b / 20000"
    and l3: "- (v - K / 10000) \<le> 7 * w / 2 ^ 53 + b / 2 ^ 58 + b / 20000"
    using u2 l2 two_sided(4,9) b w0 unfolding nums by linarith+
  have "v - R / 100 \<le> b / 20000 + (w + b) / 2 ^ 49"
    and "- (v - R / 100) \<le> b / 20000 + (w + b) / 2 ^ 49"
    using u3 l3 two_sided(5,10) b w0 unfolding nums by argo+
  then have "\<bar>v - R / 100\<bar> \<le> b / 20000 + (\<bar>v\<bar> + b) / 2 ^ 49"
    unfolding w_def by (simp add: abs_le_iff)
  then show ?thesis by (simp add: R_def)
qed


lemma np_round_2: "np_round 2 x = fl_div (fl_rint (fl_mul x (Fin 100))) (Fin 100)"
  by (simp add: np_round_def)



text \<open>The roundings of line 114 in one row, for a positive budget.\<close>

lemma scaled_round_trip:
  assumes b: "0 < b"
    and fin: "is_finite (np_round 2 (fl_mul (fl_div v (Fin b)) (Fin 100)))"
  shows "is_finite v \<and>
         \<bar>fl_val v - b * (fl_val (np_round 2 (fl_mul (fl_div v (Fin b)) (Fin 100))) / 100)\<bar>
           \<le> b / 20000 + (\<bar>fl_val v\<bar> + b) / 2 ^ 49"
proof -
  define q where "q = fl_div v (Fin b)"
  define p where "p = fl_mul q (Fin 100)"
  define y where "y = fl_mul p (Fin 100)"
  define k where "k = fl_rint y"
  define r where "r = fl_div k (Fin 100)"
  have r_eq: "np_round 2 (fl_mul (fl_div v (Fin b)) (Fin 100)) = r"
    by (simp only: np_round_2 q_def p_def y_def k_def r_def)
  have c: "(0::real) < 100" by simp
  from fin have fr: "is_finite (fl_div k (Fin 100))" by (simp only: r_eq r_def)
  from fl_div_error [OF c fr] have fk: "is_finite (fl_rint y)"
    and er: "\<bar>fl_val r - fl_val k / 100\<bar> \<le> \<bar>fl_val k / 100\<bar> / 2 ^ 53 + 1 / 2 ^ 1075"
    by (simp_all only: r_def k_def)
  from fl_rint_error [OF fk] have fy: "is_finite (fl_mul p (Fin 100))"
    and ek: "\<bar>fl_val k - fl_val y\<bar> \<le> 1 / 2"
    by (simp_all only: k_def y_def)
  from fl_mul_error [OF c fy] have fp: "is_finite (fl_mul q (Fin 100))"
    and ey: "\<bar>fl_val y - fl_val p * 100\<bar> \<le> \<bar>fl_val p * 100\<bar> / 2 ^ 53 + 1 / 2 ^ 1075"
    by (simp_all only: y_def p_def)
  from fl_mul_error [OF c fp] have fq: "is_finite (fl_div v (Fin b))"
    and ep: "\<bar>fl_val p - fl_val q * 100\<bar> \<le> \<bar>fl_val q * 100\<bar> / 2 ^ 53 + 1 / 2 ^ 1075"
    by (simp_all only: p_def q_def)
  from fl_div_error [OF b fq] have fv: "is_finite v"
    and eq: "\<bar>fl_val q - fl_val v / b\<bar> \<le> \<bar>fl_val v / b\<bar> / 2 ^ 53 + 1 / 2 ^ 1075"
    by (simp_all only: q_def)
  from round_trip_chain [OF b eq ep ey ek er] fv show ?thesis
    by (simp only: r_eq)
qed

subsection \<open>A budget of zero\<close>

lemma fl_sub_zero:
  assumes "is_finite x" and "is_float64 x" and "is_zero z"
  shows "is_finite (fl_sub x z) \<and>
         (fl_val x = 0 \<longrightarrow> is_zero (fl_sub x z)) \<and>
         (fl_val x \<noteq> 0 \<longrightarrow> fl_sub x z = x)"
  using assms by (cases x) (auto simp: is_zero_def round64_def round_mag_def fl_zero_def)

lemma fl_div_by_zero:
  assumes "is_finite v" and "is_zero z"
  shows "fl_div v z = (if is_zero v then NaN else fl_inf (fl_sign v \<noteq> fl_sign z))"
  using assms by (cases v) (auto simp: fl_div_def is_zero_def is_inf_def)

lemma scale_round_inf: "np_round 2 (fl_mul (fl_inf s) (Fin 100)) = fl_inf s"
  by (simp add: np_round_def fl_mul_def fl_div_def is_inf_def is_zero_def fl_inf_def)

lemma scale_round_NaN: "np_round 2 (fl_mul NaN (Fin 100)) = NaN"
  by (simp add: np_round_def fl_mul_def fl_div_def)

lemma finite_zero_iff: "is_finite x \<Longrightarrow> is_zero x \<longleftrightarrow> fl_val x = 0"
  by (cases x) (simp_all add: is_zero_def)

lemma spending_rate_of_zero_budget:
  assumes "is_finite x" and "is_zero z"
  shows "spending_rate_of x z =
         (if fl_val x = 0 then NaN else fl_inf (fl_sign x \<noteq> fl_sign z))"
  using assms
  by (simp add: spending_rate_of_def fl_div_by_zero finite_zero_iff scale_round_inf
      scale_round_NaN)

lemma variance_pct_of_zero_budget:
  assumes x: "is_finite x" "is_float64 x" and z: "is_zero z"
  shows "variance_pct_of x z =
         (if fl_val x = 0 then NaN else fl_inf (fl_sign x \<noteq> fl_sign z))"
proof -
  from fl_sub_zero [OF x z] have fin: "is_finite (fl_sub x z)"
    and zero: "fl_val x = 0 \<Longrightarrow> is_zero (fl_sub x z)"
    and same: "fl_val x \<noteq> 0 \<Longrightarrow> fl_sub x z = x"
    by simp_all
  show ?thesis
  proof (cases "fl_val x = 0")
    case True
    with zero fin z show ?thesis
      by (simp add: variance_pct_of_def fl_div_by_zero scale_round_NaN)
  next
    case False
    with same x z show ?thesis
      by (simp add: variance_pct_of_def fl_div_by_zero finite_zero_iff scale_round_inf)
  qed
qed

lemma categorize_default_PInf:
  "categorize_variance BudgetVarianceAnalyzer_init PInf = Inr ''Significantly Underspending''"
  by (simp add: categorize_variance_def threshold_def BudgetVarianceAnalyzer_init_def
      fl_ge_def fl_le_def)

lemma categorize_default_NInf:
  "categorize_variance BudgetVarianceAnalyzer_init NInf = Inr ''Significantly Overrun''"
  by (simp add: categorize_variance_def threshold_def BudgetVarianceAnalyzer_init_def
      fl_ge_def fl_le_def)

lemma categorize_default_NaN:
  "categorize_variance BudgetVarianceAnalyzer_init NaN = Inr ''Within Target''"
  by (simp add: categorize_variance_def threshold_def BudgetVarianceAnalyzer_init_def
      fl_ge_def fl_le_def)

subsection \<open>Claims\<close>

text \<open>
  C1. With the default thresholds, the record with budget 10000 and actual spending
  11200 gets variance_pct 12.0; the claim expects the category Significantly Overrun and
  the flag set. The code computes variance_pct 12.0 but puts the record in
  \<open>Within Target\<close> with the flag unset: the value evaluated here.
\<close>

theorem C1_code_within_target:
  "calculate_variances_body BudgetVarianceAnalyzer_init (one_record 11200 10000) =
     (None, (one_record 11200 10000)
        (''budget_variance'' \<mapsto> NumCol [Fin 1200],
         ''variance_pct'' \<mapsto> NumCol [Fin 12],
         ''spending_rate'' \<mapsto> NumCol [Fin 112],
         ''variance_category'' \<mapsto> StrCol [''Within Target''],
         ''needs attention'' \<mapsto> BoolCol [False]))"
  by (simp add: body_eval float_eval one_record_def)

text \<open>
  C2. The claim: a record with budget 0 makes the call fail with an explicit error, and
  no input yields an infinity or NaN. In the code the division is the division of float
  arrays, which raises nothing. The record with budget 0 and actual spending 500 (the
  sixth scenario of the specification) comes back with plus infinity in variance_pct and
  spending_rate.
\<close>

theorem C2_zero_budget_counterexample:
  "calculate_variances_body BudgetVarianceAnalyzer_init (one_record 500 0) =
     (None, (one_record 500 0)
        (''budget_variance'' \<mapsto> NumCol [Fin 500],
         ''variance_pct'' \<mapsto> NumCol [PInf],
         ''spending_rate'' \<mapsto> NumCol [PInf],
         ''variance_category'' \<mapsto> StrCol [''Significantly Underspending''],
         ''needs attention'' \<mapsto> BoolCol [True]))"
  by (simp add: body_eval float_eval one_record_def)

text \<open>
  C2, amended. With the default thresholds, a record with a budget of zero (of either
  sign) and a finite actual spending raises nothing. Its variance_pct and spending_rate
  are both NaN when the actual spending is zero; otherwise both are the same infinity,
  of positive sign when the actual spending and the zero budget have the same sign and
  of negative sign when they have opposite signs.
\<close>

theorem C2_zero_budget_values:
  assumes A: "df ''actual_spending'' = Some (NumCol as)"
    and B: "df ''monthly_budget'' = Some (NumCol bs)"
    and L: "length as = length bs" and I: "i < length as"
    and x: "is_finite (as ! i)" "is_float64 (as ! i)"
    and z: "is_zero (bs ! i)"
  shows "\<exists>d ps rs.
           calculate_variances_body BudgetVarianceAnalyzer_init df = (None, d) \<and>
           d ''variance_pct'' = Some (NumCol ps) \<and>
           d ''spending_rate'' = Some (NumCol rs) \<and>
           ps ! i = (if fl_val (as ! i) = 0 then NaN
                     else fl_inf (fl_sign (as ! i) \<noteq> fl_sign (bs ! i))) \<and>
           rs ! i = (if fl_val (as ! i) = 0 then NaN
                     else fl_inf (fl_sign (as ! i) \<noteq> fl_sign (bs ! i)))"
proof -
  from body_table [OF A B init_complete L] obtain cs
    where R: "calculate_variances_body BudgetVarianceAnalyzer_init df
                = (None, with_results df as bs cs)"
    by blast
  let ?d = "with_results df as bs cs"
  let ?ps = "map2 variance_pct_of as bs"
  let ?rs = "map2 spending_rate_of as bs"
  from I L have "?ps ! i = variance_pct_of (as ! i) (bs ! i)"
    and "?rs ! i = spending_rate_of (as ! i) (bs ! i)" by simp_all
  with x z have "?ps ! i = (if fl_val (as ! i) = 0 then NaN
                     else fl_inf (fl_sign (as ! i) \<noteq> fl_sign (bs ! i)))"
    and "?rs ! i = (if fl_val (as ! i) = 0 then NaN
                     else fl_inf (fl_sign (as ! i) \<noteq> fl_sign (bs ! i)))"
    by (simp_all only: variance_pct_of_zero_budget spending_rate_of_zero_budget)
  moreover have "?d ''variance_pct'' = Some (NumCol ?ps)"
    and "?d ''spending_rate'' = Some (NumCol ?rs)"
    by (simp_all only: with_results_lookup)
  ultimately have "calculate_variances_body BudgetVarianceAnalyzer_init df = (None, ?d) \<and>
      ?d ''variance_pct'' = Some (NumCol ?ps) \<and> ?d ''spending_rate'' = Some (NumCol ?rs) \<and>
      ?ps ! i = (if fl_val (as ! i) = 0 then NaN
                 else fl_inf (fl_sign (as ! i) \<noteq> fl_sign (bs ! i))) \<and>
      ?rs ! i = (if fl_val (as ! i) = 0 then NaN
                 else fl_inf (fl_sign (as ! i) \<noteq> fl_sign (bs ! i)))"
    using R by blast
  then show ?thesis by (intro exI)
qed

theorem C2_zero_budget_values_witness:
  "zero_budget_records ''actual_spending'' = Some (NumCol [Fin 500, Fin 500, Fin 0]) \<and>
   zero_budget_records ''monthly_budget'' = Some (NumCol [Fin 0, NegZero, Fin 0]) \<and>
   is_finite (Fin 500) \<and> is_float64 (Fin 500) \<and> is_zero NegZero \<and>
   (\<exists>d ps rs.
      calculate_variances_body BudgetVarianceAnalyzer_init zero_budget_records = (None, d) \<and>
      d ''variance_pct'' = Some (NumCol ps) \<and> d ''spending_rate'' = Some (NumCol rs) \<and>
      ps ! 1 = NInf \<and> rs ! 1 = NInf)"
proof -
  let ?as = "[Fin 500, Fin 500, Fin 0]"
  let ?bs = "[Fin 0, NegZero, Fin 0]"
  have L: "length ?as = length ?bs" and I: "1 < length ?as" by simp_all
  have x: "is_finite (?as ! 1)" "is_float64 (?as ! 1)" using float64_500 by simp_all
  have z: "is_zero (?bs ! 1)" by (simp add: is_zero_def)
  from C2_zero_budget_values [OF zero_budget_records_columns(1,2) L I x z]
  obtain d ps rs
    where "calculate_variances_body BudgetVarianceAnalyzer_init zero_budget_records = (None, d)"
      and "d ''variance_pct'' = Some (NumCol ps)" and "d ''spending_rate'' = Some (NumCol rs)"
      and "ps ! 1 = (if fl_val (?as ! 1) = 0 then NaN
                     else fl_inf (fl_sign (?as ! 1) \<noteq> fl_sign (?bs ! 1)))"
      and "rs ! 1 = (if fl_val (?as ! 1) = 0 then NaN
                     else fl_inf (fl_sign (?as ! 1) \<noteq> fl_sign (?bs ! 1)))"
    by (elim exE conjE) (rule that)
  moreover have "(if fl_val (?as ! 1) = 0 then NaN
                  else fl_inf (fl_sign (?as ! 1) \<noteq> fl_sign (?bs ! 1))) = NInf"
    by (simp add: fl_inf_def)
  ultimately have "\<exists>d ps rs.
      calculate_variances_body BudgetVarianceAnalyzer_init zero_budget_records = (None, d) \<and>
      d ''variance_pct'' = Some (NumCol ps) \<and> d ''spending_rate'' = Some (NumCol rs) \<and>
      ps ! 1 = NInf \<and> rs ! 1 = NInf"
    by (simp only:) blast
  moreover have "is_finite (Fin 500)" "is_zero NegZero" by (simp_all add: is_zero_def)
  ultimately show ?thesis
    using zero_budget_records_columns(1,2) float64_500 by blast
qed

text \<open>
  C3. For strictly ordered thresholds, each of the four threshold values is classified
  into the more severe of the two categories it separates. (The second label is the
  source's spelling of Slightly Overrun.)
\<close>

theorem C3_boundaries:
  assumes "variance_thresholds self ''significantly_over'' = Some so"
    and "variance_thresholds self ''slightly_over'' = Some sl"
    and "variance_thresholds self ''slightly_under'' = Some ul"
    and "variance_thresholds self ''significantly_under'' = Some us"
    and "so < sl" and "sl < ul" and "ul < us"
  shows "categorize_variance self (Fin so) = Inr ''Significantly Overrun'' \<and>
         categorize_variance self (Fin sl) = Inr ''Slighty Overrun'' \<and>
         categorize_variance self (Fin us) = Inr ''Significantly Underspending'' \<and>
         categorize_variance self (Fin ul) = Inr ''Slightly Underspending''"
  using assms by (simp add: categorize_variance_def threshold_def fl_ge_def fl_le_def)

theorem C3_boundaries_witness:
  "variance_thresholds BudgetVarianceAnalyzer_init ''significantly_over'' = Some (- 10) \<and>
   variance_thresholds BudgetVarianceAnalyzer_init ''slightly_over'' = Some (- 5) \<and>
   variance_thresholds BudgetVarianceAnalyzer_init ''slightly_under'' = Some 15 \<and>
   variance_thresholds BudgetVarianceAnalyzer_init ''significantly_under'' = Some 25 \<and>
   (- 10 :: real) < - 5 \<and> (- 5 :: real) < 15 \<and> (15 :: real) < 25 \<and>
   categorize_variance BudgetVarianceAnalyzer_init (Fin (- 10)) = Inr ''Significantly Overrun'' \<and>
   categorize_variance BudgetVarianceAnalyzer_init (Fin (- 5)) = Inr ''Slighty Overrun'' \<and>
   categorize_variance BudgetVarianceAnalyzer_init (Fin 25) = Inr ''Significantly Underspending'' \<and>
   categorize_variance BudgetVarianceAnalyzer_init (Fin 15) = Inr ''Slightly Underspending''"
proof -
  have k1: "variance_thresholds BudgetVarianceAnalyzer_init ''significantly_over'' = Some (- 10)"
    and k2: "variance_thresholds BudgetVarianceAnalyzer_init ''slightly_over'' = Some (- 5)"
    and k3: "variance_thresholds BudgetVarianceAnalyzer_init ''slightly_under'' = Some 15"
    and k4: "variance_thresholds BudgetVarianceAnalyzer_init ''significantly_under'' = Some 25"
    by (simp_all add: BudgetVarianceAnalyzer_init_def)
  have o1: "(- 10 :: real) < - 5" and o2: "(- 5 :: real) < 15" and o3: "(15 :: real) < 25"
    by simp_all
  from C3_boundaries [OF k1 k2 k3 k4 o1 o2 o3] k1 k2 k3 k4 o1 o2 o3
  show ?thesis by blast
qed

text \<open>
  C4. The claim: the call has no effect besides the value it returns and leaves its
  input as it was. The code assigns five columns to the DataFrame object it was handed:
  after the call on the object at address 0, that object has a column \<open>variance_pct\<close>
  it did not have before, and the value returned is address 0 itself.
\<close>

theorem C4_input_modified_counterexample:
  "caller_heap 0 ''variance_pct'' = None \<and>
   fst (calculate_variances BudgetVarianceAnalyzer_init 0 caller_heap) = Inr 0 \<and>
   snd (calculate_variances BudgetVarianceAnalyzer_init 0 caller_heap) 0 ''variance_pct''
     = Some (NumCol [Fin 12, Fin (- 13)])"
proof -
  have "caller_heap 0 = two_records" by (simp add: caller_heap_def)
  then have "calculate_variances BudgetVarianceAnalyzer_init 0 caller_heap
      = (Inr 0, caller_heap(0 := two_records_result))"
    by (simp add: calculate_variances_def two_records_eval)
  moreover have "caller_heap 0 ''variance_pct'' = None"
    by (simp add: caller_heap_def two_records_def)
  ultimately show ?thesis by (simp add: two_records_result_columns)
qed

text \<open>
  C4, amended. The call works in place, on inputs the model covers. It either raises a
  KeyError or returns the reference it was given, and then the object behind that
  reference has the five columns \<open>budget_variance\<close>, \<open>variance_pct\<close>,
  \<open>spending_rate\<close> (numbers), \<open>variance_category\<close> (strings) and
  \<open>needs attention\<close> (booleans, true for the categories Significantly Overrun and
  Significantly Underspending). Whether it raises or not, every other column of that
  object, \<open>actual_spending\<close> and \<open>monthly_budget\<close> among them, is as it was, and
  so is every other object.
\<close>

theorem C4_in_place:
  assumes "calculate_variances self df h = (res, h')"
    and "res \<noteq> Inl NotModelled"
  shows "(res = Inr df \<or> (\<exists>k. res = Inl (KeyError k))) \<and>
         (res = Inr df \<longrightarrow>
            (\<exists>vs ps rs cs.
               h' df ''budget_variance'' = Some (NumCol vs) \<and>
               h' df ''variance_pct'' = Some (NumCol ps) \<and>
               h' df ''spending_rate'' = Some (NumCol rs) \<and>
               h' df ''variance_category'' = Some (StrCol cs) \<and>
               h' df ''needs attention'' = Some (BoolCol (map flagged cs)))) \<and>
         (\<forall>a. a \<noteq> df \<longrightarrow> h' a = h a) \<and>
         (\<forall>k. k \<notin> set assigned_columns \<longrightarrow> h' df k = h df k) \<and>
         h' df ''actual_spending'' = h df ''actual_spending'' \<and>
         h' df ''monthly_budget'' = h df ''monthly_budget''"
proof -
  obtain r d where B: "calculate_variances_body self (h df) = (r, d)"
    by (cases "calculate_variances_body self (h df)") blast
  with assms(1) have h': "h' = h(df := d)"
    and res: "res = (case r of None \<Rightarrow> Inr df | Some e \<Rightarrow> Inl e)"
    by (auto simp: calculate_variances_def split: option.splits)
  have outcome: "res = Inr df \<or> (\<exists>k. res = Inl (KeyError k))"
  proof (cases r)
    case None
    with res show ?thesis by simp
  next
    case (Some e)
    with res assms(2) show ?thesis by (cases e) simp_all
  qed
  have assigned: "\<exists>vs ps rs cs.
               h' df ''budget_variance'' = Some (NumCol vs) \<and>
               h' df ''variance_pct'' = Some (NumCol ps) \<and>
               h' df ''spending_rate'' = Some (NumCol rs) \<and>
               h' df ''variance_category'' = Some (StrCol cs) \<and>
               h' df ''needs attention'' = Some (BoolCol (map flagged cs))"
    if "res = Inr df"
  proof -
    from that res have "r = None" by (cases r) simp_all
    with B have "calculate_variances_body self (h df) = (None, d)" by simp
    from body_success_columns [OF this] h' show ?thesis by simp
  qed
  from h' have others: "\<forall>a. a \<noteq> df \<longrightarrow> h' a = h a" by simp
  from h' body_frame [OF B]
  have frame: "\<forall>k. k \<notin> set assigned_columns \<longrightarrow> h' df k = h df k" by simp
  then have "h' df ''actual_spending'' = h df ''actual_spending''"
    and "h' df ''monthly_budget'' = h df ''monthly_budget''"
    by (simp_all add: assigned_columns_def)
  with outcome assigned others frame show ?thesis by blast
qed

theorem C4_in_place_witness:
  "calculate_variances BudgetVarianceAnalyzer_init 0 caller_heap
     = (Inr 0, caller_heap(0 := two_records_result)) \<and>
   ((Inr 0 :: error + addr) \<noteq> Inl NotModelled) \<and>
   (\<exists>vs ps rs cs.
      (caller_heap(0 := two_records_result)) 0 ''budget_variance'' = Some (NumCol vs) \<and>
      (caller_heap(0 := two_records_result)) 0 ''variance_pct'' = Some (NumCol ps) \<and>
      (caller_heap(0 := two_records_result)) 0 ''spending_rate'' = Some (NumCol rs) \<and>
      (caller_heap(0 := two_records_result)) 0 ''variance_category'' = Some (StrCol cs) \<and>
      (caller_heap(0 := two_records_result)) 0 ''needs attention''
        = Some (BoolCol (map flagged cs))) \<and>
   (caller_heap(0 := two_records_result)) 1 = caller_heap 1 \<and>
   (caller_heap(0 := two_records_result)) 0 ''actual_spending'' = caller_heap 0 ''actual_spending'' \<and>
   (caller_heap(0 := two_records_result)) 0 ''monthly_budget'' = caller_heap 0 ''monthly_budget''"
proof -
  have "caller_heap 0 = two_records" by (simp add: caller_heap_def)
  then have R: "calculate_variances BudgetVarianceAnalyzer_init 0 caller_heap
      = (Inr 0, caller_heap(0 := two_records_result))"
    by (simp add: calculate_variances_def two_records_eval)
  have N: "(Inr 0 :: error + addr) \<noteq> Inl NotModelled" by simp
  have one: "(1::addr) \<noteq> 0" by simp
  note T = C4_in_place [OF R N]
  from T have "\<exists>vs ps rs cs.
      (caller_heap(0 := two_records_result)) 0 ''budget_variance'' = Some (NumCol vs) \<and>
      (caller_heap(0 := two_records_result)) 0 ''variance_pct'' = Some (NumCol ps) \<and>
      (caller_heap(0 := two_records_result)) 0 ''spending_rate'' = Some (NumCol rs) \<and>
      (caller_heap(0 := two_records_result)) 0 ''variance_category'' = Some (StrCol cs) \<and>
      (caller_heap(0 := two_records_result)) 0 ''needs attention''
        = Some (BoolCol (map flagged cs))"
    by blast
  moreover from T one have "(caller_heap(0 := two_records_result)) 1 = caller_heap 1"
    by blast
  moreover from T
  have "(caller_heap(0 := two_records_result)) 0 ''actual_spending'' = caller_heap 0 ''actual_spending''"
    and "(caller_heap(0 := two_records_result)) 0 ''monthly_budget'' = caller_heap 0 ''monthly_budget''"
    by blast+
  ultimately show ?thesis using R N by blast
qed




text \<open>
  C6. The claim: variance_amount and budgeted_amount * (variance_pct / 100) differ by at
  most 0.01. For budget 30000 and actual spending 30001 the variance amount is 1 and
  variance_pct, 0.0033 before rounding, is 0: the two differ by 1.
\<close>

theorem C6_tolerance_counterexample:
  "calculate_variances_body BudgetVarianceAnalyzer_init large_budget_record
     = (None, large_budget_record_result) \<and>
   large_budget_record ''actual_spending'' = Some (NumCol [Fin 30001]) \<and>
   large_budget_record ''monthly_budget'' = Some (NumCol [Fin 30000]) \<and>
   large_budget_record_result ''budget_variance'' = Some (NumCol [Fin 1]) \<and>
   large_budget_record_result ''variance_pct'' = Some (NumCol [Fin 0]) \<and>
   \<not> \<bar>1 - 30000 * (0 / 100)\<bar> \<le> (1 / 100 :: real)"
  by (simp add: large_budget_record_eval large_budget_record_columns)

text \<open>
  C6, amended. For a record with a positive budget in a call that raised nothing, if
  variance_pct is finite then so is the variance amount, and the variance amount and
  budgeted_amount * (variance_pct / 100) differ by at most
  budgeted_amount / 20000 + (|variance amount| + budgeted_amount) / 2 ^ 49:
  half a unit of the second decimal of the percentage, scaled by the budget, and the
  float64 rounding of the operations of line 114. (variance_pct is infinite where those
  operations overflow.)
\<close>

theorem C6_round_trip:
  assumes A: "df ''actual_spending'' = Some (NumCol as)"
    and B: "df ''monthly_budget'' = Some (NumCol bs)"
    and L: "length as = length bs" and I: "i < length as"
    and b: "bs ! i = Fin b" and pos: "0 < b"
    and R: "calculate_variances_body self df = (None, d)"
  shows "\<exists>vs ps.
           d ''budget_variance'' = Some (NumCol vs) \<and> d ''variance_pct'' = Some (NumCol ps) \<and>
           (is_finite (ps ! i) \<longrightarrow>
              is_finite (vs ! i) \<and>
              \<bar>fl_val (vs ! i) - b * (fl_val (ps ! i) / 100)\<bar>
                \<le> b / 20000 + (\<bar>fl_val (vs ! i)\<bar> + b) / 2 ^ 49)"
proof -
  from body_success_row [OF A B L R] obtain cs where D: "d = with_results df as bs cs"
    by blast
  let ?vs = "map2 fl_sub as bs"
  let ?ps = "map2 variance_pct_of as bs"
  from I L have v: "?vs ! i = fl_sub (as ! i) (bs ! i)" by simp
  from I L b have p: "?ps ! i = np_round 2 (fl_mul (fl_div (?vs ! i) (Fin b)) (Fin 100))"
    by (simp add: variance_pct_of_def)
  have "is_finite (?vs ! i) \<and>
        \<bar>fl_val (?vs ! i) - b * (fl_val (?ps ! i) / 100)\<bar>
          \<le> b / 20000 + (\<bar>fl_val (?vs ! i)\<bar> + b) / 2 ^ 49"
    if "is_finite (?ps ! i)"
    using scaled_round_trip [OF pos that [unfolded p]] by (simp only: p)
  moreover from D have "d ''budget_variance'' = Some (NumCol ?vs)"
    and "d ''variance_pct'' = Some (NumCol ?ps)"
    by (simp_all add: with_results_lookup)
  ultimately show ?thesis by blast
qed

theorem C6_round_trip_witness:
  "large_budget_record ''actual_spending'' = Some (NumCol [Fin 30001]) \<and>
   large_budget_record ''monthly_budget'' = Some (NumCol [Fin 30000]) \<and>
   (0 :: real) < 30000 \<and>
   calculate_variances_body BudgetVarianceAnalyzer_init large_budget_record
     = (None, large_budget_record_result) \<and>
   large_budget_record_result ''budget_variance'' = Some (NumCol [Fin 1]) \<and>
   large_budget_record_result ''variance_pct'' = Some (NumCol [Fin 0]) \<and>
   is_finite (Fin 0) \<and> is_finite (Fin 1) \<and>
   \<bar>fl_val (Fin 1) - 30000 * (fl_val (Fin 0) / 100)\<bar>
     \<le> 30000 / 20000 + (\<bar>fl_val (Fin 1)\<bar> + 30000) / 2 ^ 49"
proof -
  have L: "length [Fin 30001] = length [Fin 30000]" and I: "0 < length [Fin 30001]"
    by simp_all
  have b: "[Fin 30000] ! 0 = Fin 30000" by simp
  have pos: "(0 :: real) < 30000" by simp
  from C6_round_trip [OF large_budget_record_columns(1,2) L I b pos large_budget_record_eval]
  obtain vs ps
    where vs: "large_budget_record_result ''budget_variance'' = Some (NumCol vs)"
      and ps: "large_budget_record_result ''variance_pct'' = Some (NumCol ps)"
      and bound: "is_finite (ps ! 0) \<longrightarrow>
              is_finite (vs ! 0) \<and>
              \<bar>fl_val (vs ! 0) - 30000 * (fl_val (ps ! 0) / 100)\<bar>
                \<le> 30000 / 20000 + (\<bar>fl_val (vs ! 0)\<bar> + 30000) / 2 ^ 49"
    by (elim exE conjE) (rule that)
  from vs have "vs = [Fin 1]"
    by (simp only: large_budget_record_columns option.inject column.inject)
  then have v: "vs ! 0 = Fin 1" by simp
  from ps have "ps = [Fin 0]"
    by (simp only: large_budget_record_columns option.inject column.inject)
  then have p: "ps ! 0 = Fin 0" by simp
  have fin: "is_finite (Fin 0)" by simp
  from bound [unfolded v p] fin
  have "is_finite (Fin 1) \<and>
        \<bar>fl_val (Fin 1) - 30000 * (fl_val (Fin 0) / 100)\<bar>
          \<le> 30000 / 20000 + (\<bar>fl_val (Fin 1)\<bar> + 30000) / 2 ^ 49"
    by blast
  with large_budget_record_columns large_budget_record_eval pos fin show ?thesis by blast
qed

text \<open>
  C7. In every result of a call that raised nothing, the flag of a row is set exactly
  when the category of that row is Significantly Overrun or Significantly Underspending.
\<close>

theorem C7_needs_attention:
  assumes "calculate_variances_body self df = (None, d)"
  shows "\<exists>cs ns.
           d ''variance_category'' = Some (StrCol cs) \<and>
           d ''needs attention'' = Some (BoolCol ns) \<and>
           length ns = length cs \<and>
           (\<forall>i<length cs. ns ! i \<longleftrightarrow>
              (cs ! i = ''Significantly Overrun'' \<or> cs ! i = ''Significantly Underspending''))"
proof -
  from assms obtain d1 where "run [assign_variance_pct, assign_spending_rate,
      assign_variance_category self, assign_needs_attention] d1 = (None, d)"
    unfolding calculate_variances_body_def by (blast dest: run_Cons_None)
  then obtain d2 where "run [assign_spending_rate,
      assign_variance_category self, assign_needs_attention] d2 = (None, d)"
    by (blast dest: run_Cons_None)
  then obtain d3 where "run [assign_variance_category self, assign_needs_attention] d3 = (None, d)"
    by (blast dest: run_Cons_None)
  then obtain d4 where s4: "assign_variance_category self d3 = Inr d4"
    and "run [assign_needs_attention] d4 = (None, d)"
    by (blast dest: run_Cons_None)
  then obtain d5 where s5: "assign_needs_attention d4 = Inr d5" and "run [] d5 = (None, d)"
    by (blast dest: run_Cons_None)
  then have d5: "d5 = d" by simp
  from assign_variance_category_sets [OF s4] obtain cs
    where d4: "d4 = d3(''variance_category'' \<mapsto> StrCol cs)" by blast
  then have "d4 ''variance_category'' = Some (StrCol cs)" by simp
  from assign_needs_attention_sets [OF s5 this] d5
  have d: "d = d4(''needs attention'' \<mapsto> BoolCol (map flagged cs))" by simp
  with d4 have "d ''variance_category'' = Some (StrCol cs)"
    and "d ''needs attention'' = Some (BoolCol (map flagged cs))"
    by simp_all
  moreover have "length (map flagged cs) = length cs" by simp
  moreover have "\<forall>i<length cs. map flagged cs ! i \<longleftrightarrow>
      (cs ! i = ''Significantly Overrun'' \<or> cs ! i = ''Significantly Underspending'')"
    by (simp add: flagged_def)
  ultimately show ?thesis by blast
qed

theorem C7_needs_attention_witness:
  "calculate_variances_body BudgetVarianceAnalyzer_init two_records = (None, two_records_result) \<and>
   two_records_result ''variance_category'' =
     Some (StrCol [''Within Target'', ''Significantly Overrun'']) \<and>
   (\<exists>ns. two_records_result ''needs attention'' = Some (BoolCol ns) \<and>
         length ns = 2 \<and> \<not> ns ! 0 \<and> ns ! 1)"
proof -
  from C7_needs_attention [OF two_records_eval] obtain cs ns
    where c: "two_records_result ''variance_category'' = Some (StrCol cs)"
      and n: "two_records_result ''needs attention'' = Some (BoolCol ns)"
      and l: "length ns = length cs"
      and f: "\<forall>i<length cs. ns ! i \<longleftrightarrow>
                (cs ! i = ''Significantly Overrun'' \<or> cs ! i = ''Significantly Underspending'')"
    by blast
  from c have cs: "cs = [''Within Target'', ''Significantly Overrun'']"
    by (simp add: two_records_result_columns)
  with l have "length ns = 2" by simp
  moreover from f cs have "\<not> ns ! 0" by simp
  moreover from f [rule_format, of 1] cs have "ns ! 1" by simp
  ultimately show ?thesis
    using two_records_eval n by (simp add: two_records_result_columns)
qed



text \<open>
  C9. A call on \<open>n\<close> records (float64 input columns of \<open>n\<close> rows, all four thresholds
  present) raises nothing and leaves every assigned column with \<open>n\<close> rows, row \<open>i\<close>
  of each computed from record \<open>i\<close>; the input columns stay as they were. Nothing is
  asked of the budgets.
\<close>

theorem C9_one_result_per_record:
  assumes A: "df ''actual_spending'' = Some (NumCol as)"
    and B: "df ''monthly_budget'' = Some (NumCol bs)"
    and T: "thresholds_complete self"
    and L: "length as = length bs"
  shows "\<exists>d vs ps rs cs ns.
           calculate_variances_body self df = (None, d) \<and>
           d ''actual_spending'' = Some (NumCol as) \<and>
           d ''monthly_budget'' = Some (NumCol bs) \<and>
           d ''budget_variance'' = Some (NumCol vs) \<and>
           d ''variance_pct'' = Some (NumCol ps) \<and>
           d ''spending_rate'' = Some (NumCol rs) \<and>
           d ''variance_category'' = Some (StrCol cs) \<and>
           d ''needs attention'' = Some (BoolCol ns) \<and>
           length vs = length as \<and> length ps = length as \<and> length rs = length as \<and>
           length cs = length as \<and> length ns = length as \<and>
           (\<forall>i<length as.
              vs ! i = fl_sub (as ! i) (bs ! i) \<and>
              ps ! i = np_round 2 (fl_mul (fl_div (vs ! i) (bs ! i)) (Fin 100)) \<and>
              rs ! i = np_round 2 (fl_mul (fl_div (as ! i) (bs ! i)) (Fin 100)) \<and>
              categorize_variance self (ps ! i) = Inr (cs ! i) \<and>
              (ns ! i \<longleftrightarrow> cs ! i \<in> {''Significantly Overrun'', ''Significantly Underspending''}))"
proof -
  from body_table [OF A B T L] obtain cs
    where R: "calculate_variances_body self df = (None, with_results df as bs cs)"
      and len: "length cs = length as"
      and C: "\<forall>i<length as. categorize_variance self (variance_pct_of (as ! i) (bs ! i)) = Inr (cs ! i)"
    by blast
  let ?vs = "map2 fl_sub as bs"
  let ?ps = "map2 variance_pct_of as bs"
  let ?rs = "map2 spending_rate_of as bs"
  let ?ns = "map flagged cs"
  have rows: "?vs ! i = fl_sub (as ! i) (bs ! i) \<and>
      ?ps ! i = np_round 2 (fl_mul (fl_div (?vs ! i) (bs ! i)) (Fin 100)) \<and>
      ?rs ! i = np_round 2 (fl_mul (fl_div (as ! i) (bs ! i)) (Fin 100)) \<and>
      categorize_variance self (?ps ! i) = Inr (cs ! i) \<and>
      (?ns ! i \<longleftrightarrow> cs ! i \<in> {''Significantly Overrun'', ''Significantly Underspending''})"
    if "i < length as" for i
    using that L len C
    by (simp add: variance_pct_of_def spending_rate_of_def flagged_def)
  from L len have lens: "length ?vs = length as \<and> length ?ps = length as \<and>
      length ?rs = length as \<and> length cs = length as \<and> length ?ns = length as"
    by simp
  let ?d = "with_results df as bs cs"
  from R A B lens rows
  have "calculate_variances_body self df = (None, ?d) \<and>
        ?d ''actual_spending'' = Some (NumCol as) \<and>
        ?d ''monthly_budget'' = Some (NumCol bs) \<and>
        ?d ''budget_variance'' = Some (NumCol ?vs) \<and>
        ?d ''variance_pct'' = Some (NumCol ?ps) \<and>
        ?d ''spending_rate'' = Some (NumCol ?rs) \<and>
        ?d ''variance_category'' = Some (StrCol cs) \<and>
        ?d ''needs attention'' = Some (BoolCol ?ns) \<and>
        length ?vs = length as \<and> length ?ps = length as \<and> length ?rs = length as \<and>
        length cs = length as \<and> length ?ns = length as \<and>
        (\<forall>i<length as.
           ?vs ! i = fl_sub (as ! i) (bs ! i) \<and>
           ?ps ! i = np_round 2 (fl_mul (fl_div (?vs ! i) (bs ! i)) (Fin 100)) \<and>
           ?rs ! i = np_round 2 (fl_mul (fl_div (as ! i) (bs ! i)) (Fin 100)) \<and>
           categorize_variance self (?ps ! i) = Inr (cs ! i) \<and>
           (?ns ! i \<longleftrightarrow> cs ! i \<in> {''Significantly Overrun'', ''Significantly Underspending''}))"
    by (simp only: with_results_lookup) blast
  then show ?thesis by (intro exI)
qed

theorem C9_one_result_per_record_witness:
  "two_records ''actual_spending'' = Some (NumCol [Fin 11200, Fin 8700]) \<and>
   two_records ''monthly_budget'' = Some (NumCol [Fin 10000, Fin 10000]) \<and>
   thresholds_complete BudgetVarianceAnalyzer_init \<and>
   length [Fin 11200, Fin 8700] = length [Fin 10000, Fin 10000] \<and>
   (\<exists>d vs ps rs cs ns.
      calculate_variances_body BudgetVarianceAnalyzer_init two_records = (None, d) \<and>
      d ''budget_variance'' = Some (NumCol vs) \<and>
      d ''variance_pct'' = Some (NumCol ps) \<and>
      d ''spending_rate'' = Some (NumCol rs) \<and>
      d ''variance_category'' = Some (StrCol cs) \<and>
      d ''needs attention'' = Some (BoolCol ns) \<and>
      length vs = 2 \<and> length ps = 2 \<and> length rs = 2 \<and> length cs = 2 \<and> length ns = 2 \<and>
      vs ! 1 = Fin (- 1300) \<and> ps ! 1 = Fin (- 13) \<and> rs ! 1 = Fin 87)"
proof -
  let ?as = "[Fin 11200, Fin 8700]"
  let ?bs = "[Fin 10000, Fin 10000]"
  have L: "length ?as = length ?bs" by simp
  from C9_one_result_per_record [OF two_records_columns init_complete L]
  obtain d vs ps rs cs ns
    where R: "calculate_variances_body BudgetVarianceAnalyzer_init two_records = (None, d)"
      and cols: "d ''budget_variance'' = Some (NumCol vs)" "d ''variance_pct'' = Some (NumCol ps)"
        "d ''spending_rate'' = Some (NumCol rs)" "d ''variance_category'' = Some (StrCol cs)"
        "d ''needs attention'' = Some (BoolCol ns)"
      and lens: "length vs = length ?as" "length ps = length ?as" "length rs = length ?as"
        "length cs = length ?as" "length ns = length ?as"
      and rows: "\<forall>i<length ?as.
              vs ! i = fl_sub (?as ! i) (?bs ! i) \<and>
              ps ! i = np_round 2 (fl_mul (fl_div (vs ! i) (?bs ! i)) (Fin 100)) \<and>
              rs ! i = np_round 2 (fl_mul (fl_div (?as ! i) (?bs ! i)) (Fin 100)) \<and>
              categorize_variance BudgetVarianceAnalyzer_init (ps ! i) = Inr (cs ! i) \<and>
              (ns ! i \<longleftrightarrow>
                 cs ! i \<in> {''Significantly Overrun'', ''Significantly Underspending''})"
    by (elim exE conjE) (rule that)
  have "(1::nat) < length ?as" by simp
  with rows have row: "vs ! 1 = fl_sub (?as ! 1) (?bs ! 1)"
    "ps ! 1 = np_round 2 (fl_mul (fl_div (vs ! 1) (?bs ! 1)) (Fin 100))"
    "rs ! 1 = np_round 2 (fl_mul (fl_div (?as ! 1) (?bs ! 1)) (Fin 100))"
    by blast+
  from row(1) have v: "vs ! 1 = Fin (- 1300)" by (simp add: float_eval)
  from row(2) have p: "ps ! 1 = Fin (- 13)" unfolding v by (simp add: float_eval)
  from row(3) have r: "rs ! 1 = Fin 87" by (simp add: float_eval)
  from lens have "length vs = 2" "length ps = 2" "length rs = 2" "length cs = 2" "length ns = 2"
    by simp_all
  with R cols v p r two_records_columns init_complete L show ?thesis by blast
qed

text \<open>
  C10. The claim: with the default thresholds, a record with budget 0 and positive actual
  spending gets variance_pct plus infinity and the category Significantly Underspending.
  The budget \<open>-0.0\<close> is equal to 0, and with it the record with actual spending 500
  gets minus infinity and the category Significantly Overrun.
\<close>

theorem C10_negative_zero_counterexample:
  "fl_le NegZero (Fin 0) \<and> fl_ge NegZero (Fin 0) \<and>
   neg_zero_budget_record ''actual_spending'' = Some (NumCol [Fin 500]) \<and>
   neg_zero_budget_record ''monthly_budget'' = Some (NumCol [NegZero]) \<and>
   calculate_variances_body BudgetVarianceAnalyzer_init neg_zero_budget_record
     = (None, neg_zero_budget_record_result) \<and>
   neg_zero_budget_record_result ''variance_pct'' = Some (NumCol [NInf]) \<and>
   neg_zero_budget_record_result ''variance_category''
     = Some (StrCol [''Significantly Overrun'']) \<and>
   neg_zero_budget_record_result ''needs attention'' = Some (BoolCol [True])"
  by (simp add: neg_zero_budget_record_eval neg_zero_budget_record_columns fl_le_def fl_ge_def)

text \<open>
  C10, amended. With the default thresholds, a record with a budget of zero and a finite
  actual spending raises nothing. If the actual spending is positive and the budget is
  the positive zero, variance_pct is plus infinity, the category Significantly
  Underspending and the flag set; if the actual spending is positive and the budget is
  the negative zero, variance_pct is minus infinity, the category Significantly Overrun
  and the flag set; if the actual spending is zero, variance_pct is NaN, the category
  Within Target and the flag unset. The record is row \<open>i\<close> of any DataFrame with
  float64 input columns.
\<close>

theorem C10_zero_budget:
  assumes A: "df ''actual_spending'' = Some (NumCol as)"
    and B: "df ''monthly_budget'' = Some (NumCol bs)"
    and L: "length as = length bs" and I: "i < length as"
    and x: "is_finite (as ! i)" "is_float64 (as ! i)"
    and z: "is_zero (bs ! i)"
  shows "\<exists>d ps cs ns.
           calculate_variances_body BudgetVarianceAnalyzer_init df = (None, d) \<and>
           d ''variance_pct'' = Some (NumCol ps) \<and>
           d ''variance_category'' = Some (StrCol cs) \<and>
           d ''needs attention'' = Some (BoolCol ns) \<and>
           (0 < fl_val (as ! i) \<and> bs ! i = Fin 0 \<longrightarrow>
              ps ! i = PInf \<and> cs ! i = ''Significantly Underspending'' \<and> ns ! i) \<and>
           (0 < fl_val (as ! i) \<and> bs ! i = NegZero \<longrightarrow>
              ps ! i = NInf \<and> cs ! i = ''Significantly Overrun'' \<and> ns ! i) \<and>
           (fl_val (as ! i) = 0 \<longrightarrow>
              ps ! i = NaN \<and> cs ! i = ''Within Target'' \<and> \<not> ns ! i)"
proof -
  from body_table [OF A B init_complete L] obtain cs
    where R: "calculate_variances_body BudgetVarianceAnalyzer_init df
                = (None, with_results df as bs cs)"
      and len: "length cs = length as"
      and C: "\<forall>i<length as. categorize_variance BudgetVarianceAnalyzer_init
                 (variance_pct_of (as ! i) (bs ! i)) = Inr (cs ! i)"
    by blast
  let ?d = "with_results df as bs cs"
  let ?ps = "map2 variance_pct_of as bs"
  let ?ns = "map flagged cs"
  let ?p = "variance_pct_of (as ! i) (bs ! i)"
  from I L have p: "?ps ! i = ?p" by simp
  from I len have n: "?ns ! i = flagged (cs ! i)" by simp
  from C I have c: "categorize_variance BudgetVarianceAnalyzer_init ?p = Inr (cs ! i)"
    by blast
  note at_zero = variance_pct_of_zero_budget [OF x z]
  have pos: "?ps ! i = PInf \<and> cs ! i = ''Significantly Underspending'' \<and> ?ns ! i"
    if "0 < fl_val (as ! i)" "bs ! i = Fin 0"
  proof -
    from that x have "fl_sign (as ! i) = fl_sign (bs ! i)" by (cases "as ! i") simp_all
    with that at_zero have v: "?p = PInf" by (simp add: fl_inf_def)
    with c have "cs ! i = ''Significantly Underspending''"
      by (simp add: categorize_default_PInf)
    with v p n show ?thesis by (simp add: flagged_def)
  qed
  have neg: "?ps ! i = NInf \<and> cs ! i = ''Significantly Overrun'' \<and> ?ns ! i"
    if "0 < fl_val (as ! i)" "bs ! i = NegZero"
  proof -
    from that x have "fl_sign (as ! i) \<noteq> fl_sign (bs ! i)" by (cases "as ! i") simp_all
    with that at_zero have v: "?p = NInf" by (simp add: fl_inf_def)
    with c have "cs ! i = ''Significantly Overrun''"
      by (simp add: categorize_default_NInf)
    with v p n show ?thesis by (simp add: flagged_def)
  qed
  have zero: "?ps ! i = NaN \<and> cs ! i = ''Within Target'' \<and> \<not> ?ns ! i"
    if "fl_val (as ! i) = 0"
  proof -
    from that at_zero have v: "?p = NaN" by simp
    with c have "cs ! i = ''Within Target''"
      by (simp add: categorize_default_NaN)
    with v p n show ?thesis by (simp add: flagged_def)
  qed
  have "?d ''variance_pct'' = Some (NumCol ?ps)"
    and "?d ''variance_category'' = Some (StrCol cs)"
    and "?d ''needs attention'' = Some (BoolCol ?ns)"
    by (simp_all only: with_results_lookup)
  with R pos neg zero
  have "calculate_variances_body BudgetVarianceAnalyzer_init df = (None, ?d) \<and>
        ?d ''variance_pct'' = Some (NumCol ?ps) \<and>
        ?d ''variance_category'' = Some (StrCol cs) \<and>
        ?d ''needs attention'' = Some (BoolCol ?ns) \<and>
        (0 < fl_val (as ! i) \<and> bs ! i = Fin 0 \<longrightarrow>
           ?ps ! i = PInf \<and> cs ! i = ''Significantly Underspending'' \<and> ?ns ! i) \<and>
        (0 < fl_val (as ! i) \<and> bs ! i = NegZero \<longrightarrow>
           ?ps ! i = NInf \<and> cs ! i = ''Significantly Overrun'' \<and> ?ns ! i) \<and>
        (fl_val (as ! i) = 0 \<longrightarrow>
           ?ps ! i = NaN \<and> cs ! i = ''Within Target'' \<and> \<not> ?ns ! i)"
    by blast
  then show ?thesis by (intro exI)
qed

theorem C10_zero_budget_witness:
  "zero_budget_records ''actual_spending'' = Some (NumCol [Fin 500, Fin 500, Fin 0]) \<and>
   zero_budget_records ''monthly_budget'' = Some (NumCol [Fin 0, NegZero, Fin 0]) \<and>
   is_float64 (Fin 500) \<and> is_float64 (Fin 0) \<and>
   calculate_variances_body BudgetVarianceAnalyzer_init zero_budget_records
     = (None, zero_budget_records_result) \<and>
   (\<exists>ps cs ns.
      zero_budget_records_result ''variance_pct'' = Some (NumCol ps) \<and>
      zero_budget_records_result ''variance_category'' = Some (StrCol cs) \<and>
      zero_budget_records_result ''needs attention'' = Some (BoolCol ns) \<and>
      ps ! 0 = PInf \<and> cs ! 0 = ''Significantly Underspending'' \<and> ns ! 0 \<and>
      ps ! 1 = NInf \<and> cs ! 1 = ''Significantly Overrun'' \<and> ns ! 1 \<and>
      ps ! 2 = NaN \<and> cs ! 2 = ''Within Target'' \<and> \<not> ns ! 2)"
proof -
  let ?as = "[Fin 500, Fin 500, Fin 0]"
  let ?bs = "[Fin 0, NegZero, Fin 0]"
  note A = zero_budget_records_columns(1) and B = zero_budget_records_columns(2)
  note E = zero_budget_records_eval
  have L: "length ?as = length ?bs" by simp
  have f0: "is_float64 (Fin 0)" by (simp add: round64_def round_mag_def fl_zero_def)
  have x0: "is_finite (?as ! 0)" "is_float64 (?as ! 0)" using float64_500 by simp_all
  have x1: "is_finite (?as ! 1)" "is_float64 (?as ! 1)" using float64_500 by simp_all
  have x2: "is_finite (?as ! 2)" "is_float64 (?as ! 2)" using f0 by simp_all
  have z0: "is_zero (?bs ! 0)" and z1: "is_zero (?bs ! 1)" and z2: "is_zero (?bs ! 2)"
    by (simp_all add: is_zero_def)
  have I0: "0 < length ?as" and I1: "1 < length ?as" and I2: "2 < length ?as" by simp_all
  from C10_zero_budget [OF A B L I0 x0 z0] obtain ps cs ns
    where P: "zero_budget_records_result ''variance_pct'' = Some (NumCol ps)"
      and C: "zero_budget_records_result ''variance_category'' = Some (StrCol cs)"
      and N: "zero_budget_records_result ''needs attention'' = Some (BoolCol ns)"
      and r0: "ps ! 0 = PInf \<and> cs ! 0 = ''Significantly Underspending'' \<and> ns ! 0"
    unfolding E by auto
  from C10_zero_budget [OF A B L I1 x1 z1] P C N
  have r1: "ps ! 1 = NInf \<and> cs ! 1 = ''Significantly Overrun'' \<and> ns ! 1"
    unfolding E by auto
  from C10_zero_budget [OF A B L I2 x2 z2] P C N
  have r2: "ps ! 2 = NaN \<and> cs ! 2 = ''Within Target'' \<and> \<not> ns ! 2"
    unfolding E by auto
  from A B E P C N r0 r1 r2 float64_500 f0 show ?thesis by blast
qed

end
